theory Spec2Isabelle
  imports Main
begin

section \<open>Tiers and identities (types.ts, utils.ts)\<close>

text \<open>
  \<^verbatim>\<open>UserTier = 'owner' | 'family' | 'friend' | 'stranger'\<close> and
  \<^verbatim>\<open>ContextTier = 'owner' | 'family' | 'friend'\<close> are string-literal unions; each becomes
  a datatype.  Strings are lists of code units.
\<close>

datatype UserTier = TOwner | TFamily | TFriend | TStranger

datatype ContextTier = CtxOwner | CtxFamily | CtxFriend

fun tierName :: "UserTier \<Rightarrow> string" where
  "tierName TOwner = ''owner''"
| "tierName TFamily = ''family''"
| "tierName TFriend = ''friend''"
| "tierName TStranger = ''stranger''"

text \<open>
  \<^verbatim>\<open>jid.split('@', 2)\<close>: the text before the first \<open>@\<close>, and, when there is an \<open>@\<close>,
  the text between the first and the second one (the limit 2 drops everything after).
\<close>

definition splitAt2 :: "string \<Rightarrow> string \<times> string option" where
  "splitAt2 s =
     (takeWhile (\<lambda>c. c \<noteq> CHR ''@'') s,
      case dropWhile (\<lambda>c. c \<noteq> CHR ''@'') s of
        [] \<Rightarrow> None
      | _ # r \<Rightarrow> Some (takeWhile (\<lambda>c. c \<noteq> CHR ''@'') r))"

text \<open>
  \<^verbatim>\<open>normalizeJid\<close> (the same body in authorization.ts, user-registry.ts and utils.ts):
  the suffix after the first \<open>:\<close> of the local part is dropped, a non-empty domain is
  reattached.
\<close>

definition normalizeJid :: "string \<Rightarrow> string" where
  "normalizeJid j =
     (case splitAt2 j of
        (localPart, domain) \<Rightarrow>
          let normalizedLocal = takeWhile (\<lambda>c. c \<noteq> CHR '':'') localPart
          in (case domain of
                None \<Rightarrow> normalizedLocal
              | Some d \<Rightarrow> if d \<noteq> [] then normalizedLocal @ ''@'' @ d else normalizedLocal))"

section \<open>Principal registry (user-registry.ts)\<close>

record UserInfo =
  ui_jid :: string
  ui_name :: string
  ui_addedAt :: string
  ui_addedBy :: "string option"

record UserRegistry =
  owner :: UserInfo
  family :: "UserInfo list"
  friends :: "UserInfo list"

text \<open>
  The registry file on disk: missing, present but unreadable (\<^verbatim>\<open>readFileSync\<close> throws), or
  present with some text.  \<^verbatim>\<open>JSON.parse\<close> followed by the unchecked cast to the declared
  type is the parameter \<open>parse\<close>; \<open>None\<close> is a thrown SyntaxError.
\<close>

datatype file_state = Absent | Unreadable | Content string

definition loadJson :: "(string \<Rightarrow> 'a option) \<Rightarrow> file_state \<Rightarrow> 'a \<Rightarrow> 'a" where
  "loadJson parse f defaultValue =
     (case f of
        Absent \<Rightarrow> defaultValue
      | Unreadable \<Rightarrow> defaultValue
      | Content s \<Rightarrow> (case parse s of None \<Rightarrow> defaultValue | Some v \<Rightarrow> v))"

definition defaultRegistry :: UserRegistry where
  "defaultRegistry =
     \<lparr> owner = \<lparr> ui_jid = '''', ui_name = '''', ui_addedAt = '''', ui_addedBy = None \<rparr>,
       family = [], friends = [] \<rparr>"

definition loadUserRegistry :: "(string \<Rightarrow> UserRegistry option) \<Rightarrow> file_state \<Rightarrow> UserRegistry" where
  "loadUserRegistry parse f = loadJson parse f defaultRegistry"

text \<open>\<^verbatim>\<open>xs.some(user => normalizeJid(user.jid) === normalizedJid)\<close>\<close>

fun someMatches :: "UserInfo list \<Rightarrow> string \<Rightarrow> bool" where
  "someMatches [] normalizedJid = False"
| "someMatches (u # us) normalizedJid =
     (if normalizeJid (ui_jid u) = normalizedJid then True else someMatches us normalizedJid)"

definition getUserTierFromRegistry :: "string \<Rightarrow> UserRegistry \<Rightarrow> UserTier" where
  "getUserTierFromRegistry normalizedJid registry =
     (if ui_jid (owner registry) \<noteq> [] \<and> normalizeJid (ui_jid (owner registry)) = normalizedJid
      then TOwner
      else if someMatches (family registry) normalizedJid then TFamily
      else if someMatches (friends registry) normalizedJid then TFriend
      else TStranger)"

definition getUserTier :: "(string \<Rightarrow> UserRegistry option) \<Rightarrow> file_state \<Rightarrow> string \<Rightarrow> UserTier" where
  "getUserTier parse f j = getUserTierFromRegistry (normalizeJid j) (loadUserRegistry parse f)"

section \<open>Policy engine (authorization.ts)\<close>

record AuthorizationResult =
  ar_canInvoke :: bool
  ar_tier :: UserTier
  ar_reason :: "string option"

text \<open>
  \<^verbatim>\<open>canInvoke(senderJid, isGroupChat)\<close>.  The second argument is only written to the log
  record; the returned object is built from the tier alone.
\<close>

definition canInvoke ::
  "(string \<Rightarrow> UserRegistry option) \<Rightarrow> file_state \<Rightarrow> string \<Rightarrow> bool \<Rightarrow> AuthorizationResult" where
  "canInvoke parse f senderJid isGroupChat =
     (let normalizedJid = normalizeJid senderJid;
          tier = getUserTier parse f normalizedJid;
          can = (tier = TOwner \<or> tier = TFamily)
      in \<lparr> ar_canInvoke = can,
           ar_tier = tier,
           ar_reason = Some (if can then tierName tier @ '' tier user can invoke Jarvis''
                             else tierName tier @ '' tier users cannot invoke Jarvis'') \<rparr>)"

text \<open>\<^verbatim>\<open>Array.prototype.indexOf\<close>: the first position of the element, \<open>-1\<close> when absent.\<close>

fun indexOf :: "'a list \<Rightarrow> 'a \<Rightarrow> int" where
  "indexOf [] x = -1"
| "indexOf (y # ys) x =
     (if y = x then 0 else (let i = indexOf ys x in if i = -1 then -1 else i + 1))"

definition contextPriority :: "ContextTier list" where
  "contextPriority = [CtxOwner, CtxFamily, CtxFriend]"

text \<open>The baseline context inferred from the sender (the first \<^verbatim>\<open>if\<close> chain).\<close>

definition inferredContextTier :: "UserTier \<Rightarrow> ContextTier" where
  "inferredContextTier senderTier =
     (if senderTier = TOwner then CtxOwner
      else if senderTier = TFamily then CtxFamily
      else CtxFriend)"

definition determineAgentContext :: "UserTier \<Rightarrow> ContextTier option \<Rightarrow> ContextTier" where
  "determineAgentContext senderTier groupContextTier =
     (case groupContextTier of
        Some g \<Rightarrow>
          (let senderIndex = indexOf contextPriority (inferredContextTier senderTier);
               groupIndex = indexOf contextPriority g;
               effectiveIndex = max senderIndex groupIndex
           in contextPriority ! nat effectiveIndex)
      | None \<Rightarrow> inferredContextTier senderTier)"

text \<open>
  The earlier revision of the same function kept in the repository (the unnamed copy of
  authorization.ts): a configured group tier was returned as it is.
\<close>

definition determineAgentContext_legacy :: "UserTier \<Rightarrow> ContextTier option \<Rightarrow> ContextTier" where
  "determineAgentContext_legacy senderTier groupContextTier =
     (case groupContextTier of
        Some g \<Rightarrow> g
      | None \<Rightarrow> inferredContextTier senderTier)"

text \<open>The restrictiveness order of the specification: owner < family < friend.\<close>

fun restrictiveness :: "ContextTier \<Rightarrow> nat" where
  "restrictiveness CtxOwner = 0"
| "restrictiveness CtxFamily = 1"
| "restrictiveness CtxFriend = 2"

section \<open>Stranger gate (authorization.ts)\<close>

record StrangerCacheEntry =
  ce_hasStrangers :: bool
  ce_lastChecked :: int
  ce_participants :: "string list"

text \<open>The module-level \<^verbatim>\<open>Map<string, StrangerCacheEntry>\<close>, passed in and returned.\<close>

type_synonym strangerCache = "string \<rightharpoonup> StrangerCacheEntry"

definition CACHE_TTL :: int where
  "CACHE_TTL = 300000"

text \<open>
  The classification loop with its \<^verbatim>\<open>break\<close>: true as soon as one participant is a
  stranger.  The registry is read from disk on every \<^verbatim>\<open>getUserTier\<close> call.
\<close>

fun foundStranger :: "(string \<Rightarrow> UserRegistry option) \<Rightarrow> file_state \<Rightarrow> string list \<Rightarrow> bool" where
  "foundStranger parse f [] = False"
| "foundStranger parse f (p # ps) =
     (if getUserTier parse f p = TStranger then True else foundStranger parse f ps)"

text \<open>\<^verbatim>\<open>participants.some(p => !cached.participants.includes(normalizeJid(p)))\<close>\<close>

fun someNotCached :: "string list \<Rightarrow> string list \<Rightarrow> bool" where
  "someNotCached [] cached = False"
| "someNotCached (p # ps) cached =
     (if normalizeJid p \<in> set cached then someNotCached ps cached else True)"

definition participantsChanged :: "string list \<Rightarrow> string list \<Rightarrow> bool" where
  "participantsChanged participants cached =
     (length participants \<noteq> length cached \<or> someNotCached participants cached)"

text \<open>The recomputation branch: classify, then overwrite the cache entry of the group.\<close>

definition checkFresh ::
  "(string \<Rightarrow> UserRegistry option) \<Rightarrow> file_state \<Rightarrow> strangerCache \<Rightarrow> int \<Rightarrow> string
     \<Rightarrow> string list \<Rightarrow> bool \<times> strangerCache" where
  "checkFresh parse f cache now normalizedGroupJid participants =
     (let normalizedParticipants = map normalizeJid participants;
          found = foundStranger parse f normalizedParticipants
      in (found,
          cache(normalizedGroupJid \<mapsto>
            \<lparr> ce_hasStrangers = found, ce_lastChecked = now,
              ce_participants = normalizedParticipants \<rparr>)))"

text \<open>
  \<^verbatim>\<open>hasStrangers(groupJid, participants, forceRefresh)\<close> with the clock
  (\<^verbatim>\<open>Date.now()\<close>), the registry file and the cache made explicit; it returns the
  answer and the cache after the call.
\<close>

definition hasStrangers ::
  "(string \<Rightarrow> UserRegistry option) \<Rightarrow> file_state \<Rightarrow> strangerCache \<Rightarrow> int \<Rightarrow> string
     \<Rightarrow> string list \<Rightarrow> bool \<Rightarrow> bool \<times> strangerCache" where
  "hasStrangers parse f cache now groupJid participants forceRefresh =
     (let normalizedGroupJid = normalizeJid groupJid
      in if forceRefresh then checkFresh parse f cache now normalizedGroupJid participants
         else (case cache normalizedGroupJid of
                 None \<Rightarrow> checkFresh parse f cache now normalizedGroupJid participants
               | Some cached \<Rightarrow>
                   (let age = now - ce_lastChecked cached
                    in if age < CACHE_TTL
                       then (if participantsChanged participants (ce_participants cached)
                             then checkFresh parse f cache now normalizedGroupJid participants
                             else (ce_hasStrangers cached, cache))
                       else checkFresh parse f cache now normalizedGroupJid participants)))"

section \<open>Groups, scheduled tasks and the command channel (types.ts, db.ts, index.ts)\<close>

record AdditionalMount =
  am_hostPath :: string
  am_containerPath :: string
  am_readonly :: "bool option"

record ContainerConfig =
  cc_additionalMounts :: "AdditionalMount list option"
  cc_timeout :: "int option"
  cc_env :: "(string \<times> string) list option"

record RegisteredGroup =
  rg_name :: string
  rg_folder :: string
  rg_trigger :: string
  rg_added_at :: string
  rg_contextTier :: "ContextTier option"
  rg_containerConfig :: "ContainerConfig option"

record ScheduledTask =
  st_id :: string
  st_group_folder :: string
  st_chat_jid :: string
  st_prompt :: string
  st_schedule_type :: string
  st_schedule_value :: string
  st_context_mode :: string
  st_next_run :: "string option"
  st_last_run :: "string option"
  st_last_result :: "string option"
  st_status :: string
  st_created_at :: string

text \<open>
  The parsed content of a command file.  Every field is optional; the message queue uses
  \<open>type\<close>, \<open>chatJid\<close> and \<open>text\<close>, the task queue the others.
\<close>

record IpcData =
  d_type :: "string option"
  d_taskId :: "string option"
  d_prompt :: "string option"
  d_schedule_type :: "string option"
  d_schedule_value :: "string option"
  d_context_mode :: "string option"
  d_groupFolder :: "string option"
  d_chatJid :: "string option"
  d_text :: "string option"
  d_jid :: "string option"
  d_name :: "string option"
  d_folder :: "string option"
  d_trigger :: "string option"
  d_containerConfig :: "ContainerConfig option"
  d_userJid :: "string option"
  d_userName :: "string option"
  d_tier :: "string option"

text \<open>
  A field is truthy when it is present and not the empty string; the guards below spell
  this out.
\<close>

text \<open>
  The host state the command channel acts on: \<^verbatim>\<open>registeredGroups\<close> (an object keyed by
  channel id, as the list of its entries in the order JavaScript enumerates them), the
  \<^verbatim>\<open>scheduled_tasks\<close> table keyed by its primary key, and the messages handed to
  \<^verbatim>\<open>sendMessage\<close>, oldest first.  The user registry file and the run-log table are not
  part of it.
\<close>

record host_state =
  hs_groups :: "(string \<times> RegisteredGroup) list"
  hs_tasks :: "string \<rightharpoonup> ScheduledTask"
  hs_sent :: "(string \<times> string) list"

text \<open>What the watcher does with a command file once it has been handled.\<close>

datatype file_fate = Deleted | Quarantined string

datatype ipc_error = RangeError | SqliteConstraint

subsection \<open>Numbers and dates\<close>

definition digitChar :: "nat \<Rightarrow> char" where
  "digitChar n = ''0123456789'' ! (n mod 10)"

fun decimal :: "nat \<Rightarrow> string" where
  "decimal n = (if n < 10 then [digitChar n] else decimal (n div 10) @ [digitChar n])"

definition numberToString :: "int \<Rightarrow> string" where
  "numberToString i = (if i < 0 then ''-'' @ decimal (nat (- i)) else decimal (nat i))"

text \<open>
  White space skipped by \<^verbatim>\<open>parseInt\<close> and removed by \<^verbatim>\<open>trim\<close>, among the code units
  below 256: tab, line feed, vertical tab, form feed, carriage return, space, no-break space.
\<close>

definition isWhiteSpace :: "char \<Rightarrow> bool" where
  "isWhiteSpace c = (of_char c \<in> {9, 10, 11, 12, 13, 32, 160 :: nat})"

definition isDigit :: "char \<Rightarrow> bool" where
  "isDigit c = (48 \<le> (of_char c :: nat) \<and> (of_char c :: nat) \<le> 57)"

definition digitValue :: "char \<Rightarrow> nat" where
  "digitValue c = of_char c - 48"

text \<open>
  \<^verbatim>\<open>parseInt(s, 10)\<close>: leading white space is skipped, an optional sign is read, then the
  longest run of decimal digits; \<open>None\<close> is NaN (no digit).  Whatever follows the digits is
  ignored.  The value is kept exact (a JavaScript number rounds above \<open>2^53\<close>, which changes
  neither its sign nor whether it is NaN).
\<close>

definition parseInt10 :: "string \<Rightarrow> int option" where
  "parseInt10 s =
     (let t = dropWhile isWhiteSpace s;
          neg = (case t of [] \<Rightarrow> False | c # _ \<Rightarrow> c = CHR ''-'');
          u = (case t of [] \<Rightarrow> [] | c # r \<Rightarrow> if c = CHR ''-'' \<or> c = CHR ''+'' then r else t);
          ds = takeWhile isDigit u
      in if ds = [] then None
         else (let n = int (foldl (\<lambda>a c. 10 * a + digitValue c) 0 ds)
               in Some (if neg then - n else n)))"

text \<open>
  The time values a \<^verbatim>\<open>Date\<close> can hold: beyond them the date is invalid and
  \<^verbatim>\<open>toISOString\<close> throws a RangeError.
\<close>

definition timeClip :: "int \<Rightarrow> int option" where
  "timeClip t = (if \<bar>t\<bar> \<le> 8640000000000000 then Some t else None)"

text \<open>
  What scheduling takes from outside the repository: the cron library
  (\<^verbatim>\<open>CronExpressionParser.parse(v, {tz}).next().toISOString()\<close>, \<open>None\<close> when any step
  throws), \<^verbatim>\<open>new Date(v).getTime()\<close> (\<open>None\<close> for an invalid date), the ISO rendering of
  a valid time value, the clock and the random suffix of a task id.  One clock reading stands
  for the \<^verbatim>\<open>Date.now()\<close> and \<^verbatim>\<open>new Date()\<close> calls made while one command is handled.
\<close>

record sched_env =
  se_cronNext :: "string \<Rightarrow> string option"
  se_dateParse :: "string \<Rightarrow> int option"
  se_iso :: "int \<Rightarrow> string"
  se_now :: int
  se_random :: string

text \<open>
  The \<^verbatim>\<open>nextRun\<close> computation of \<^verbatim>\<open>schedule_task\<close>: the schedule is refused
  (\<^verbatim>\<open>break\<close> after a warning), the computation throws, or it yields the next run
  (\<^verbatim>\<open>null\<close> for a schedule type that is none of the three).
\<close>

datatype next_run_result = InvalidSchedule | Thrown ipc_error | NextRun "string option"

definition computeNextRun :: "sched_env \<Rightarrow> string \<Rightarrow> string \<Rightarrow> next_run_result" where
  "computeNextRun env scheduleType v =
     (if scheduleType = ''cron'' then
        (case se_cronNext env v of
           None \<Rightarrow> InvalidSchedule
         | Some t \<Rightarrow> NextRun (Some t))
      else if scheduleType = ''interval'' then
        (case parseInt10 v of
           None \<Rightarrow> InvalidSchedule
         | Some ms \<Rightarrow>
             if ms \<le> 0 then InvalidSchedule
             else (case timeClip (se_now env + ms) of
                     None \<Rightarrow> Thrown RangeError
                   | Some t \<Rightarrow> NextRun (Some (se_iso env t))))
      else if scheduleType = ''once'' then
        (case se_dateParse env v of
           None \<Rightarrow> InvalidSchedule
         | Some t \<Rightarrow> NextRun (Some (se_iso env t)))
      else NextRun None)"

text \<open>
  The specification's words for a well-formed interval, \<^emph>\<open>a positive integer of
  milliseconds\<close>, read on the text of the value: decimal digits and nothing else, denoting a
  number above zero.  It is a reading of the specification, not of the code, and is used only
  to say what the text \<^verbatim>\<open>30m\<close> is not.
\<close>

definition positiveIntegerText :: "string \<Rightarrow> bool" where
  "positiveIntegerText v =
     (v \<noteq> [] \<and> list_all isDigit v \<and> 0 < foldl (\<lambda>a c. 10 * a + digitValue c) 0 v)"

subsection \<open>The task table (db.ts)\<close>

text \<open>\<^verbatim>\<open>createTask\<close>: an INSERT; a row with the same primary key makes it throw.\<close>

definition createTask :: "(string \<rightharpoonup> ScheduledTask) \<Rightarrow> ScheduledTask \<Rightarrow> ipc_error + (string \<rightharpoonup> ScheduledTask)" where
  "createTask tasks task =
     (case tasks (st_id task) of
        Some _ \<Rightarrow> Inl SqliteConstraint
      | None \<Rightarrow> Inr (tasks(st_id task \<mapsto> task)))"

definition getTaskById :: "(string \<rightharpoonup> ScheduledTask) \<Rightarrow> string \<Rightarrow> ScheduledTask option" where
  "getTaskById tasks i = tasks i"

text \<open>\<^verbatim>\<open>updateTask(id, { status })\<close>, the only update the command channel makes.\<close>

definition updateTaskStatus :: "(string \<rightharpoonup> ScheduledTask) \<Rightarrow> string \<Rightarrow> string \<Rightarrow> (string \<rightharpoonup> ScheduledTask)" where
  "updateTaskStatus tasks i status =
     (case tasks i of
        None \<Rightarrow> tasks
      | Some t \<Rightarrow> tasks(i \<mapsto> t\<lparr>st_status := status\<rparr>))"

definition deleteTask :: "(string \<rightharpoonup> ScheduledTask) \<Rightarrow> string \<Rightarrow> (string \<rightharpoonup> ScheduledTask)" where
  "deleteTask tasks i = tasks(i := None)"

subsection \<open>The command channel (index.ts)\<close>

text \<open>
  The privilege of a source namespace: the context tier of the first registered group whose
  folder is the namespace, \<^verbatim>\<open>friend\<close> when there is none or it has no tier.
\<close>

definition sourceContextTier :: "(string \<times> RegisteredGroup) list \<Rightarrow> string \<Rightarrow> ContextTier" where
  "sourceContextTier groups sourceGroup =
     (case find (\<lambda>g. rg_folder g = sourceGroup) (map snd groups) of
        None \<Rightarrow> CtxFriend
      | Some g \<Rightarrow> (case rg_contextTier g of None \<Rightarrow> CtxFriend | Some t \<Rightarrow> t))"

text \<open>The \<^verbatim>\<open>schedule_task\<close> case.\<close>

definition scheduleTask ::
  "sched_env \<Rightarrow> host_state \<Rightarrow> IpcData \<Rightarrow> string \<Rightarrow> ipc_error + host_state" where
  "scheduleTask env st d sourceGroup =
     (let contextTier = sourceContextTier (hs_groups st) sourceGroup;
          isOwner = (contextTier = CtxOwner);
          isFamily = (contextTier = CtxFamily)
      in case (d_prompt d, d_schedule_type d, d_schedule_value d, d_groupFolder d) of
           (Some prompt, Some scheduleType, Some scheduleValue, Some targetGroup) \<Rightarrow>
             if prompt = [] \<or> scheduleType = [] \<or> scheduleValue = [] \<or> targetGroup = []
             then Inr st
             else if \<not> isOwner \<and> \<not> isFamily then Inr st
             else if \<not> isOwner \<and> targetGroup \<noteq> sourceGroup then Inr st
             else (case find (\<lambda>(j, g). rg_folder g = targetGroup) (hs_groups st) of
                     None \<Rightarrow> Inr st
                   | Some (targetJid, _) \<Rightarrow>
                       if targetJid = [] then Inr st
                       else (case computeNextRun env scheduleType scheduleValue of
                               InvalidSchedule \<Rightarrow> Inr st
                             | Thrown e \<Rightarrow> Inl e
                             | NextRun nextRun \<Rightarrow>
                                 (let taskId = ''task-'' @ numberToString (se_now env) @ ''-''
                                                 @ se_random env;
                                      contextMode =
                                        (case d_context_mode d of
                                           None \<Rightarrow> ''isolated''
                                         | Some m \<Rightarrow>
                                             if m = ''group'' \<or> m = ''isolated'' then m
                                             else ''isolated'')
                                  in case createTask (hs_tasks st)
                                       \<lparr> st_id = taskId, st_group_folder = targetGroup,
                                         st_chat_jid = targetJid, st_prompt = prompt,
                                         st_schedule_type = scheduleType,
                                         st_schedule_value = scheduleValue,
                                         st_context_mode = contextMode, st_next_run = nextRun,
                                         st_last_run = None, st_last_result = None,
                                         st_status = ''active'',
                                         st_created_at = se_iso env (se_now env) \<rparr> of
                                       Inl e \<Rightarrow> Inl e
                                     | Inr tasks' \<Rightarrow> Inr (st\<lparr>hs_tasks := tasks'\<rparr>))))
         | _ \<Rightarrow> Inr st)"

text \<open>
  The \<^verbatim>\<open>pause_task\<close>, \<^verbatim>\<open>resume_task\<close> and \<^verbatim>\<open>cancel_task\<close> cases share one guard;
  \<open>effect\<close> is what the authorised branch does to the table.
\<close>

definition mayActOnTask :: "ContextTier \<Rightarrow> ScheduledTask \<Rightarrow> string \<Rightarrow> bool" where
  "mayActOnTask contextTier task sourceGroup =
     (contextTier = CtxOwner \<or> (contextTier = CtxFamily \<and> st_group_folder task = sourceGroup))"

definition actOnTask ::
  "((string \<rightharpoonup> ScheduledTask) \<Rightarrow> string \<Rightarrow> (string \<rightharpoonup> ScheduledTask)) \<Rightarrow> host_state \<Rightarrow> IpcData
     \<Rightarrow> string \<Rightarrow> host_state" where
  "actOnTask effect st d sourceGroup =
     (case d_taskId d of
        None \<Rightarrow> st
      | Some taskId \<Rightarrow>
          if taskId = [] then st
          else (case getTaskById (hs_tasks st) taskId of
                  None \<Rightarrow> st
                | Some task \<Rightarrow>
                    if mayActOnTask (sourceContextTier (hs_groups st) sourceGroup) task sourceGroup
                    then st\<lparr>hs_tasks := effect (hs_tasks st) taskId\<rparr>
                    else st))"

text \<open>
  \<^verbatim>\<open>obj[key] = value\<close> on a JavaScript object, whose keys are listed with the array
  indices first (the canonical decimal texts of the integers below \<open>2^32 - 1\<close>) in ascending
  order, and the other keys after them in insertion order.  Assigning to a key the object has
  keeps the key's place.
\<close>

definition arrayIndex :: "string \<Rightarrow> nat option" where
  "arrayIndex k =
     (let n = foldl (\<lambda>a c. 10 * a + digitValue c) 0 k
      in if k \<noteq> [] \<and> list_all isDigit k \<and> (k = ''0'' \<or> hd k \<noteq> CHR ''0'') \<and> n < 4294967295
         then Some n else None)"

fun insertIndexed :: "nat \<Rightarrow> string \<Rightarrow> 'v \<Rightarrow> (string \<times> 'v) list \<Rightarrow> (string \<times> 'v) list" where
  "insertIndexed n k v [] = [(k, v)]"
| "insertIndexed n k v ((k', v') # kvs) =
     (case arrayIndex k' of
        None \<Rightarrow> (k, v) # (k', v') # kvs
      | Some n' \<Rightarrow>
          if n' < n then (k', v') # insertIndexed n k v kvs else (k, v) # (k', v') # kvs)"

definition setProp :: "(string \<times> 'v) list \<Rightarrow> string \<Rightarrow> 'v \<Rightarrow> (string \<times> 'v) list" where
  "setProp kvs k v =
     (case map_of kvs k of
        Some _ \<Rightarrow> map (\<lambda>(k', v'). if k' = k then (k', v) else (k', v')) kvs
      | None \<Rightarrow>
          (case arrayIndex k of
             None \<Rightarrow> kvs @ [(k, v)]
           | Some n \<Rightarrow> insertIndexed n k v kvs))"

text \<open>The \<^verbatim>\<open>register_group\<close> case; the new entry carries no context tier.\<close>

definition registerGroupIpc :: "sched_env \<Rightarrow> host_state \<Rightarrow> IpcData \<Rightarrow> string \<Rightarrow> host_state" where
  "registerGroupIpc env st d sourceGroup =
     (if sourceContextTier (hs_groups st) sourceGroup \<noteq> CtxOwner then st
      else (case (d_jid d, d_name d, d_folder d, d_trigger d) of
              (Some j, Some n, Some fo, Some tr) \<Rightarrow>
                if j = [] \<or> n = [] \<or> fo = [] \<or> tr = [] then st
                else st\<lparr>hs_groups := setProp (hs_groups st) j
                          \<lparr> rg_name = n, rg_folder = fo, rg_trigger = tr,
                            rg_added_at = se_iso env (se_now env), rg_contextTier = None,
                            rg_containerConfig = d_containerConfig d \<rparr>\<rparr>
            | _ \<Rightarrow> st))"

text \<open>
  \<^verbatim>\<open>processTaskIpc(data, sourceGroup, isMain)\<close>: its effect on the groups and the task
  table, or the exception it throws.  The cases \<^verbatim>\<open>refresh_groups\<close>, \<^verbatim>\<open>add_user\<close>,
  \<^verbatim>\<open>remove_user\<close>, \<^verbatim>\<open>list_users\<close>, \<^verbatim>\<open>get_my_tier\<close> and the default case touch
  neither.  The body never reads \<^verbatim>\<open>isMain\<close>.
\<close>

definition processTaskIpc ::
  "sched_env \<Rightarrow> host_state \<Rightarrow> IpcData \<Rightarrow> string \<Rightarrow> bool \<Rightarrow> ipc_error + host_state" where
  "processTaskIpc env st d sourceGroup isMain =
     (if d_type d = Some ''schedule_task'' then scheduleTask env st d sourceGroup
      else if d_type d = Some ''pause_task'' then
        Inr (actOnTask (\<lambda>tasks i. updateTaskStatus tasks i ''paused'') st d sourceGroup)
      else if d_type d = Some ''resume_task'' then
        Inr (actOnTask (\<lambda>tasks i. updateTaskStatus tasks i ''active'') st d sourceGroup)
      else if d_type d = Some ''cancel_task'' then
        Inr (actOnTask deleteTask st d sourceGroup)
      else if d_type d = Some ''register_group'' then
        Inr (registerGroupIpc env st d sourceGroup)
      else Inr st)"

text \<open>
  One file of a namespace's \<^verbatim>\<open>tasks\<close> queue: \<^verbatim>\<open>JSON.parse\<close> (the parameter \<open>parse\<close>,
  \<open>None\<close> when it throws), \<^verbatim>\<open>processTaskIpc\<close>, then \<^verbatim>\<open>unlinkSync\<close>; the
  \<^verbatim>\<open>catch\<close> branch renames the file into \<^verbatim>\<open>errors/\<close> under the name
  \<^verbatim>\<open>${sourceGroup}-${file}\<close>.
\<close>

definition processTaskFile ::
  "(string \<Rightarrow> IpcData option) \<Rightarrow> sched_env \<Rightarrow> string \<Rightarrow> host_state \<Rightarrow> string \<Rightarrow> string \<Rightarrow> string
     \<Rightarrow> host_state \<times> file_fate" where
  "processTaskFile parse env mainGroupFolder st sourceGroup file content =
     (case parse content of
        None \<Rightarrow> (st, Quarantined (sourceGroup @ ''-'' @ file))
      | Some d \<Rightarrow>
          (case processTaskIpc env st d sourceGroup (sourceGroup = mainGroupFolder) of
             Inl e \<Rightarrow> (st, Quarantined (sourceGroup @ ''-'' @ file))
           | Inr st' \<Rightarrow> (st', Deleted)))"

text \<open>
  The body of the \<^verbatim>\<open>messages\<close> queue loop for a parsed file: a complete send request
  (type \<^verbatim>\<open>message\<close>, a channel and a text) is authorised from the directory name and
  the registered groups, and sent or dropped.
\<close>

definition handleIpcMessage :: "string \<Rightarrow> host_state \<Rightarrow> IpcData \<Rightarrow> string \<Rightarrow> host_state" where
  "handleIpcMessage mainGroupFolder st d sourceGroup =
     (let isMain = (sourceGroup = mainGroupFolder)
      in case (d_chatJid d, d_text d) of
           (Some chatJid, Some text) \<Rightarrow>
             if d_type d = Some ''message'' \<and> chatJid \<noteq> [] \<and> text \<noteq> []
             then (let targetGroup = map_of (hs_groups st) chatJid
                   in if isMain \<or> (case targetGroup of
                                     None \<Rightarrow> False
                                   | Some g \<Rightarrow> rg_folder g = sourceGroup)
                      then st\<lparr>hs_sent := hs_sent st @ [(chatJid, text)]\<rparr>
                      else st)
             else st
         | _ \<Rightarrow> st)"

definition processMessageFile ::
  "(string \<Rightarrow> IpcData option) \<Rightarrow> string \<Rightarrow> host_state \<Rightarrow> string \<Rightarrow> string \<Rightarrow> string
     \<Rightarrow> host_state \<times> file_fate" where
  "processMessageFile parse mainGroupFolder st sourceGroup file content =
     (case parse content of
        None \<Rightarrow> (st, Quarantined (sourceGroup @ ''-'' @ file))
      | Some d \<Rightarrow> (handleIpcMessage mainGroupFolder st d sourceGroup, Deleted))"

section \<open>Container orchestrator (container-runner.ts)\<close>

subsection \<open>Strings and paths\<close>

text \<open>\<^verbatim>\<open>s.startsWith(p)\<close>, \<^verbatim>\<open>s.includes(p)\<close>, \<^verbatim>\<open>s.indexOf(p)\<close> (\<open>-1\<close> when absent).\<close>

definition startsWith :: "string \<Rightarrow> string \<Rightarrow> bool" where
  "startsWith s p = (take (length p) s = p)"

fun strIncludes :: "string \<Rightarrow> string \<Rightarrow> bool" where
  "strIncludes [] p = (p = [])"
| "strIncludes (c # cs) p = (if startsWith (c # cs) p then True else strIncludes cs p)"

fun strIndexOf :: "string \<Rightarrow> string \<Rightarrow> int" where
  "strIndexOf [] p = (if p = [] then 0 else -1)"
| "strIndexOf (c # cs) p =
     (if startsWith (c # cs) p then 0
      else (let i = strIndexOf cs p in if i = -1 then -1 else i + 1))"

text \<open>\<^verbatim>\<open>s.slice(a, b)\<close> for indices that are not negative: empty when \<open>b \<le> a\<close>.\<close>

definition slice :: "string \<Rightarrow> int \<Rightarrow> int \<Rightarrow> string" where
  "slice s a b = take (nat (b - a)) (drop (nat a) s)"

text \<open>\<^verbatim>\<open>s.slice(-n)\<close>: the last \<open>n\<close> code units.\<close>

definition sliceLast :: "string \<Rightarrow> nat \<Rightarrow> string" where
  "sliceLast s n = drop (length s - n) s"

definition trim :: "string \<Rightarrow> string" where
  "trim s = rev (dropWhile isWhiteSpace (rev (dropWhile isWhiteSpace s)))"

text \<open>\<^verbatim>\<open>s.split('\n')\<close>: never empty; the text without a line feed is its only element.\<close>

fun splitLines :: "string \<Rightarrow> string list" where
  "splitLines [] = [[]]"
| "splitLines (c # cs) =
     (if c = CHR 0x0A then [] # splitLines cs
      else (case splitLines cs of [] \<Rightarrow> [[c]] | l # ls \<Rightarrow> (c # l) # ls))"

text \<open>Lower case of the letters A to Z; other code units are left as they are.\<close>

definition toLowerChar :: "char \<Rightarrow> char" where
  "toLowerChar c =
     (if 65 \<le> (of_char c :: nat) \<and> (of_char c :: nat) \<le> 90
      then char_of (of_char c + 32 :: nat) else c)"

definition toLowerCase :: "string \<Rightarrow> string" where
  "toLowerCase s = map toLowerChar s"

text \<open>
  \<^verbatim>\<open>path.join\<close> of the POSIX flavour: the non-empty arguments are joined with the
  separator and the result is normalised.  Normalisation drops empty and \<open>.\<close> segments, lets
  a \<open>..\<close> segment remove the segment before it (at the root of an absolute path it is
  dropped, at the start of a relative path it is kept), and keeps a trailing separator.
\<close>

text \<open>\<^verbatim>\<open>s.split('/')\<close> and \<^verbatim>\<open>parts.join(sep)\<close>.\<close>

fun splitPath :: "string \<Rightarrow> string list" where
  "splitPath [] = [[]]"
| "splitPath (c # cs) =
     (if c = CHR ''/'' then [] # splitPath cs
      else (case splitPath cs of [] \<Rightarrow> [[c]] | l # ls \<Rightarrow> (c # l) # ls))"

fun joinWith :: "string \<Rightarrow> string list \<Rightarrow> string" where
  "joinWith sep [] = []"
| "joinWith sep [p] = p"
| "joinWith sep (p # q # ps) = p @ sep @ joinWith sep (q # ps)"

text \<open>The segments kept so far are held last first.\<close>

fun normalizeSegments :: "bool \<Rightarrow> string list \<Rightarrow> string list \<Rightarrow> string list" where
  "normalizeSegments allowAboveRoot res [] = rev res"
| "normalizeSegments allowAboveRoot res (seg # segs) =
     (if seg = [] \<or> seg = ''.'' then normalizeSegments allowAboveRoot res segs
      else if seg = ''..'' then
        (case res of
           [] \<Rightarrow> normalizeSegments allowAboveRoot (if allowAboveRoot then [''..''] else []) segs
         | lastSeg # below \<Rightarrow>
             if lastSeg \<noteq> ''..'' then normalizeSegments allowAboveRoot below segs
             else normalizeSegments allowAboveRoot (if allowAboveRoot then ''..'' # res else res)
                    segs)
      else normalizeSegments allowAboveRoot (seg # res) segs)"

definition normalizePath :: "string \<Rightarrow> string" where
  "normalizePath p =
     (if p = [] then ''.''
      else (let isAbsolute = (hd p = CHR ''/'');
                trailingSeparator = (last p = CHR ''/'');
                body = joinWith ''/'' (normalizeSegments (\<not> isAbsolute) [] (splitPath p))
            in if body = []
               then (if isAbsolute then ''/'' else if trailingSeparator then ''./'' else ''.'')
               else (if isAbsolute then ''/'' else []) @ body
                      @ (if trailingSeparator then ''/'' else [])))"

definition pathJoin :: "string list \<Rightarrow> string" where
  "pathJoin parts =
     (case filter (\<lambda>p. p \<noteq> []) parts of
        [] \<Rightarrow> ''.''
      | p # ps \<Rightarrow> normalizePath (joinWith ''/'' (p # ps)))"

subsection \<open>The host\<close>

record VolumeMount =
  vm_hostPath :: string
  vm_containerPath :: string
  vm_readonly :: "bool option"

record VaultSettings =
  vs_path :: string
  vs_enabled :: bool

record VaultConfig =
  vc_mainVault :: "VaultSettings option"
  vc_privateVault :: "VaultSettings option"

datatype realpath_result = RealPath string | ENOENT | RealpathFailed string

text \<open>
  JSON values, as \<^verbatim>\<open>JSON.parse\<close> returns them.  The declared type of a parsed value is
  not checked at run time, so what the container prints decides what value the host holds.
\<close>

datatype json =
  JNull
| JBool bool
| JNumber int
| JString string
| JArray "json list"
| JObject "(string \<times> json) list"

text \<open>
  What the orchestrator takes from its environment.  File-system calls that can throw are
  predicates (\<open>True\<close>: the call returns) or return \<open>None\<close> when they throw.  The
  configuration module, the allowlist validator \<^verbatim>\<open>validateAdditionalMounts\<close> and
  \<^verbatim>\<open>JSON.parse\<close> (\<open>Inl\<close>: the message of the SyntaxError) are not part of the sources
  and are taken as they are.
\<close>

record host =
  h_cwd :: string
  h_DATA_DIR :: string
  h_GROUPS_DIR :: string
  h_CONTAINER_TIMEOUT :: int
  h_CONTAINER_MAX_OUTPUT_SIZE :: nat
  h_existsSync :: "string \<Rightarrow> bool"
  h_mkdirSync :: "string \<Rightarrow> bool"
  h_writeFileSync :: "string \<Rightarrow> bool"
  h_readFileSync :: "string \<Rightarrow> string option"
  h_realpathSync :: "string \<Rightarrow> realpath_result"
  h_isDirectory :: "string \<Rightarrow> bool option"
  h_vaultConfig :: VaultConfig
  h_expandPath :: "string \<Rightarrow> string"
  h_validateAdditionalMounts :: "AdditionalMount list \<Rightarrow> string \<Rightarrow> bool \<Rightarrow> VolumeMount list"
  h_jsonParse :: "string \<Rightarrow> string + json"
  h_timestamp :: string

text \<open>
  The exceptions that leave the orchestrator: a failed file-system call with its path, and an
  exception thrown while the child process is being spawned, with its message.
\<close>

datatype host_error =
  MkdirFailed string | ReadFailed string | WriteFailed string | SpawnFailed string

subsection \<open>Mount composition\<close>

fun getSessionDirPath :: "host \<Rightarrow> string \<Rightarrow> ContextTier \<Rightarrow> string" where
  "getSessionDirPath h groupFolder CtxOwner = pathJoin [h_DATA_DIR h, ''sessions'', ''owner'', ''.claude'']"
| "getSessionDirPath h groupFolder CtxFamily = pathJoin [h_DATA_DIR h, ''sessions'', ''family'', ''.claude'']"
| "getSessionDirPath h groupFolder CtxFriend =
     pathJoin [h_DATA_DIR h, ''sessions'', ''friends'', groupFolder, ''.claude'']"

datatype vault_error =
  VaultPathMissing | VaultResolveFailed | VaultBlockedPattern string | VaultStatFailed
| VaultNotDirectory

definition blockedPatterns :: "string list" where
  "blockedPatterns = [''.ssh'', ''.gnupg'', ''.gpg'', ''.aws'', ''credentials'']"

definition validateVaultMount :: "host \<Rightarrow> string \<Rightarrow> vault_error + unit" where
  "validateVaultMount h vaultPath =
     (case h_realpathSync h vaultPath of
        ENOENT \<Rightarrow> Inl VaultPathMissing
      | RealpathFailed _ \<Rightarrow> Inl VaultResolveFailed
      | RealPath resolvedPath \<Rightarrow>
          (case find (\<lambda>pattern. strIncludes (toLowerCase resolvedPath) pattern) blockedPatterns of
             Some pattern \<Rightarrow> Inl (VaultBlockedPattern pattern)
           | None \<Rightarrow>
               (case h_isDirectory h resolvedPath of
                  None \<Rightarrow> Inl VaultStatFailed
                | Some isDir \<Rightarrow> if isDir then Inr () else Inl VaultNotDirectory)))"

text \<open>
  One vault block of \<^verbatim>\<open>buildVolumeMounts\<close>: an enabled vault with a path is validated
  inside a \<^verbatim>\<open>try\<close>; a vault that fails validation is skipped.
\<close>

definition vaultMounts :: "host \<Rightarrow> VaultSettings option \<Rightarrow> string \<Rightarrow> VolumeMount list" where
  "vaultMounts h vault containerPath =
     (case vault of
        None \<Rightarrow> []
      | Some v \<Rightarrow>
          if vs_enabled v \<and> vs_path v \<noteq> []
          then (let vaultPath = h_expandPath h (vs_path v)
                in case validateVaultMount h vaultPath of
                     Inl _ \<Rightarrow> []
                   | Inr _ \<Rightarrow> [\<lparr> vm_hostPath = vaultPath, vm_containerPath = containerPath,
                                 vm_readonly = Some False \<rparr>])
          else [])"

definition groupFolderMount :: "host \<Rightarrow> RegisteredGroup \<Rightarrow> VolumeMount" where
  "groupFolderMount h grp =
     \<lparr> vm_hostPath = pathJoin [h_GROUPS_DIR h, rg_folder grp],
       vm_containerPath = ''/workspace/group'', vm_readonly = Some False \<rparr>"

definition globalMounts :: "host \<Rightarrow> VolumeMount list" where
  "globalMounts h =
     (let globalDir = pathJoin [h_GROUPS_DIR h, ''global'']
      in if h_existsSync h globalDir
         then [\<lparr> vm_hostPath = globalDir, vm_containerPath = ''/workspace/global'',
                 vm_readonly = Some True \<rparr>]
         else [])"

text \<open>The \<^verbatim>\<open>switch (contextTier)\<close> of \<^verbatim>\<open>buildVolumeMounts\<close>.\<close>

fun tierMounts :: "host \<Rightarrow> RegisteredGroup \<Rightarrow> ContextTier \<Rightarrow> VolumeMount list" where
  "tierMounts h grp CtxOwner =
     [\<lparr> vm_hostPath = h_cwd h, vm_containerPath = ''/workspace/project'',
        vm_readonly = Some False \<rparr>]
     @ vaultMounts h (vc_privateVault (h_vaultConfig h)) ''/workspace/vaults/private''
     @ vaultMounts h (vc_mainVault (h_vaultConfig h)) ''/workspace/vaults/main''
     @ [groupFolderMount h grp]"
| "tierMounts h grp CtxFamily =
     vaultMounts h (vc_mainVault (h_vaultConfig h)) ''/workspace/vaults/main''
     @ [groupFolderMount h grp]
     @ globalMounts h"
| "tierMounts h grp CtxFriend =
     [groupFolderMount h grp] @ globalMounts h"

text \<open>\<^verbatim>\<open>effectiveTier || group.contextTier || (isMain ? 'owner' : 'friend')\<close>\<close>

definition resolveContextTier :: "RegisteredGroup \<Rightarrow> bool \<Rightarrow> ContextTier option \<Rightarrow> ContextTier" where
  "resolveContextTier grp isMain effectiveTier =
     (case effectiveTier of
        Some t \<Rightarrow> t
      | None \<Rightarrow> (case rg_contextTier grp of
                   Some t \<Rightarrow> t
                 | None \<Rightarrow> if isMain then CtxOwner else CtxFriend))"

definition sessionMount :: "host \<Rightarrow> RegisteredGroup \<Rightarrow> ContextTier \<Rightarrow> VolumeMount" where
  "sessionMount h grp contextTier =
     \<lparr> vm_hostPath = getSessionDirPath h (rg_folder grp) contextTier,
       vm_containerPath = ''/home/node/.claude'', vm_readonly = Some False \<rparr>"

definition ipcMount :: "host \<Rightarrow> RegisteredGroup \<Rightarrow> VolumeMount" where
  "ipcMount h grp =
     \<lparr> vm_hostPath = pathJoin [h_DATA_DIR h, ''ipc'', rg_folder grp],
       vm_containerPath = ''/workspace/ipc'', vm_readonly = Some False \<rparr>"

text \<open>
  The lines of \<^verbatim>\<open>.env\<close> that are kept: not blank, not a comment, and starting with one
  of the two allowed variable names followed by \<open>=\<close>.
\<close>

definition allowedVars :: "string list" where
  "allowedVars = [''CLAUDE_CODE_OAUTH_TOKEN'', ''ANTHROPIC_API_KEY'']"

definition keepEnvLine :: "string \<Rightarrow> bool" where
  "keepEnvLine line =
     (let trimmed = trim line
      in if trimmed = [] \<or> startsWith trimmed ''#'' then False
         else list_ex (\<lambda>v. startsWith trimmed (v @ ''='')) allowedVars)"

text \<open>
  The environment-file block: the mount is added only when \<^verbatim>\<open>.env\<close> exists and at
  least one line is kept; reading \<^verbatim>\<open>.env\<close> and writing the filtered file can throw.
\<close>

definition envMounts :: "host \<Rightarrow> host_error + VolumeMount list" where
  "envMounts h =
     (let envDir = pathJoin [h_DATA_DIR h, ''env''];
          envFile = pathJoin [h_cwd h, ''.env'']
      in if \<not> h_mkdirSync h envDir then Inl (MkdirFailed envDir)
         else if h_existsSync h envFile then
           (case h_readFileSync h envFile of
              None \<Rightarrow> Inl (ReadFailed envFile)
            | Some envContent \<Rightarrow>
                (let filteredLines = filter keepEnvLine (splitLines envContent)
                 in if filteredLines = [] then Inr []
                    else if \<not> h_writeFileSync h (pathJoin [envDir, ''env''])
                    then Inl (WriteFailed (pathJoin [envDir, ''env'']))
                    else Inr [\<lparr> vm_hostPath = envDir, vm_containerPath = ''/workspace/env-dir'',
                               vm_readonly = Some True \<rparr>]))
         else Inr [])"

definition additionalMounts :: "host \<Rightarrow> RegisteredGroup \<Rightarrow> bool \<Rightarrow> VolumeMount list" where
  "additionalMounts h grp isMain =
     (case rg_containerConfig grp of
        None \<Rightarrow> []
      | Some cc \<Rightarrow>
          (case cc_additionalMounts cc of
             None \<Rightarrow> []
           | Some requested \<Rightarrow> h_validateAdditionalMounts h requested (rg_name grp) isMain))"

definition buildVolumeMounts ::
  "host \<Rightarrow> RegisteredGroup \<Rightarrow> bool \<Rightarrow> ContextTier option \<Rightarrow> host_error + VolumeMount list" where
  "buildVolumeMounts h grp isMain effectiveTier =
     (let contextTier = resolveContextTier grp isMain effectiveTier;
          mounts = tierMounts h grp contextTier;
          sessionDir = getSessionDirPath h (rg_folder grp) contextTier;
          groupIpcDir = pathJoin [h_DATA_DIR h, ''ipc'', rg_folder grp]
      in if \<not> h_mkdirSync h sessionDir then Inl (MkdirFailed sessionDir)
         else if \<not> h_mkdirSync h (pathJoin [groupIpcDir, ''messages''])
         then Inl (MkdirFailed (pathJoin [groupIpcDir, ''messages'']))
         else if \<not> h_mkdirSync h (pathJoin [groupIpcDir, ''tasks''])
         then Inl (MkdirFailed (pathJoin [groupIpcDir, ''tasks'']))
         else (case envMounts h of
                 Inl e \<Rightarrow> Inl e
               | Inr env \<Rightarrow>
                   Inr (mounts @ [sessionMount h grp contextTier, ipcMount h grp] @ env
                        @ additionalMounts h grp isMain)))"

text \<open>The container paths under which the project root and the two vaults are mounted.\<close>

definition privilegedContainerPaths :: "string list" where
  "privilegedContainerPaths =
     [''/workspace/project'', ''/workspace/vaults/private'', ''/workspace/vaults/main'']"

subsection \<open>Running the container\<close>

record ContainerInput =
  ci_prompt :: string
  ci_sessionId :: "string option"
  ci_groupFolder :: string
  ci_chatJid :: string
  ci_isMain :: bool
  ci_isScheduledTask :: "bool option"
  ci_effectiveTier :: "ContextTier option"

definition OUTPUT_START_MARKER :: string where
  "OUTPUT_START_MARKER = ''---NANOCLAW_OUTPUT_START---''"

definition OUTPUT_END_MARKER :: string where
  "OUTPUT_END_MARKER = ''---NANOCLAW_OUTPUT_END---''"

text \<open>The object \<^verbatim>\<open>{ status: 'error', result: null, error: message }\<close>.\<close>

definition errorOutput :: "string \<Rightarrow> json" where
  "errorOutput message =
     JObject [(''status'', JString ''error''), (''result'', JNull), (''error'', JString message)]"

text \<open>
  The text handed to \<^verbatim>\<open>JSON.parse\<close>: what stands between the sentinels, trimmed, or
  the last line of the trimmed output when there is no such block.
\<close>

definition hasSentinelBlock :: "string \<Rightarrow> bool" where
  "hasSentinelBlock stdout =
     (let startIdx = strIndexOf stdout OUTPUT_START_MARKER;
          endIdx = strIndexOf stdout OUTPUT_END_MARKER
      in startIdx \<noteq> -1 \<and> endIdx \<noteq> -1 \<and> endIdx > startIdx)"

definition selectJsonLine :: "string \<Rightarrow> string" where
  "selectJsonLine stdout =
     (let startIdx = strIndexOf stdout OUTPUT_START_MARKER;
          endIdx = strIndexOf stdout OUTPUT_END_MARKER
      in if hasSentinelBlock stdout
         then trim (slice stdout (startIdx + int (length OUTPUT_START_MARKER)) endIdx)
         else last (splitLines (trim stdout)))"

text \<open>
  The message of the TypeError thrown by \<^verbatim>\<open>output.status\<close> when the parsed value is
  \<^verbatim>\<open>null\<close>.
\<close>

definition nullPropertyMessage :: string where
  "nullPropertyMessage =
     ''Cannot read properties of null (reading '' @ [CHR 0x27] @ ''status'' @ [CHR 0x27] @ '')''"

text \<open>
  The \<^verbatim>\<open>try\<close> block of the close handler for exit code 0: the value the promise is
  resolved with.  A parsed value other than \<^verbatim>\<open>null\<close> is passed on as it is.
\<close>

definition parseContainerOutput :: "host \<Rightarrow> string \<Rightarrow> json" where
  "parseContainerOutput h stdout =
     (case h_jsonParse h (selectJsonLine stdout) of
        Inl message \<Rightarrow> errorOutput (''Failed to parse container output: '' @ message)
      | Inr JNull \<Rightarrow> errorOutput (''Failed to parse container output: '' @ nullPropertyMessage)
      | Inr output \<Rightarrow> output)"

text \<open>
  What the child process does once \<^verbatim>\<open>spawn\<close> has returned it, one event at a time: data
  on the two output streams, an \<^verbatim>\<open>error\<close> event on one of the child's three pipes (on
  \<^verbatim>\<open>container.stdin\<close> when the write of \<^verbatim>\<open>JSON.stringify(input)\<close> fails, as with
  EPIPE when the child has gone without reading it), the timer, the \<^verbatim>\<open>close\<close> event
  with its exit code (\<^verbatim>\<open>null\<close> after a signal) and the \<^verbatim>\<open>error\<close> event of the child
  with its message.  The place of \<open>TimeoutFires\<close> in a sequence says when the timer
  fires; its duration (\<^verbatim>\<open>group.containerConfig?.timeout || CONTAINER_TIMEOUT\<close>) is not
  represented.
\<close>

datatype proc_event =
  StdoutData string
| StderrData string
| PipeError string
| TimeoutFires
| CloseEvent "int option"
| ErrorEvent string

text \<open>
  \<^verbatim>\<open>spawn\<close> and the two calls on \<^verbatim>\<open>container.stdin\<close> run inside the promise executor:
  either one of them throws there (\<^verbatim>\<open>spawn\<close> itself, or the write when the child has
  no stdin pipe), or the child exists and the events follow.
\<close>

datatype child_process = SpawnThrows string | Spawned "proc_event list"

record run_state =
  rs_stdout :: string
  rs_stderr :: string
  rs_stdoutTruncated :: bool
  rs_stderrTruncated :: bool
  rs_timerArmed :: bool
  rs_killed :: bool
  rs_settled :: "json option"
  rs_crashed :: bool

text \<open>The state when the executor returns: the timer is armed by every call.\<close>

definition initialRunState :: run_state where
  "initialRunState =
     \<lparr> rs_stdout = [], rs_stderr = [], rs_stdoutTruncated = False, rs_stderrTruncated = False,
       rs_timerArmed = True, rs_killed = False, rs_settled = None, rs_crashed = False \<rparr>"

text \<open>\<^verbatim>\<open>resolve(v)\<close>: the first call settles the promise, later calls do nothing.\<close>

definition resolve :: "json \<Rightarrow> run_state \<Rightarrow> run_state" where
  "resolve v s = (case rs_settled s of None \<Rightarrow> s\<lparr>rs_settled := Some v\<rparr> | Some _ \<Rightarrow> s)"

text \<open>
  The value the timer callback resolves with; it names \<^verbatim>\<open>CONTAINER_TIMEOUT\<close> also when
  the group overrides the duration.
\<close>

definition timeoutOutput :: "host \<Rightarrow> json" where
  "timeoutOutput h =
     errorOutput (''Container timed out after '' @ numberToString (h_CONTAINER_TIMEOUT h) @ ''ms'')"

definition exitCodeString :: "int option \<Rightarrow> string" where
  "exitCodeString code = (case code of None \<Rightarrow> ''null'' | Some c \<Rightarrow> numberToString c)"

definition logFilePath :: "host \<Rightarrow> RegisteredGroup \<Rightarrow> string" where
  "logFilePath h grp =
     pathJoin [pathJoin [h_GROUPS_DIR h, rg_folder grp, ''logs''],
               ''container-'' @ h_timestamp h @ ''.log'']"

text \<open>
  One event handler.  An exception that nobody catches kills the host process, which is
  marked crashed: the run log cannot be written inside the close handler, or a pipe of the
  child emits \<^verbatim>\<open>error\<close>, for which no listener is registered on any of them.  The
  timer callback sends SIGKILL (\<^verbatim>\<open>container.kill\<close> is taken to deliver it) and resolves;
  a timer that has fired or has been cleared does nothing.
\<close>

fun handleEvent :: "host \<Rightarrow> RegisteredGroup \<Rightarrow> run_state \<Rightarrow> proc_event \<Rightarrow> run_state" where
  "handleEvent h grp s (StdoutData chunk) =
     (if rs_stdoutTruncated s then s
      else (let remaining = int (h_CONTAINER_MAX_OUTPUT_SIZE h) - int (length (rs_stdout s))
            in if int (length chunk) > remaining
               then s\<lparr>rs_stdout := rs_stdout s @ slice chunk 0 remaining,
                      rs_stdoutTruncated := True\<rparr>
               else s\<lparr>rs_stdout := rs_stdout s @ chunk\<rparr>))"
| "handleEvent h grp s (StderrData chunk) =
     (if rs_stderrTruncated s then s
      else (let remaining = int (h_CONTAINER_MAX_OUTPUT_SIZE h) - int (length (rs_stderr s))
            in if int (length chunk) > remaining
               then s\<lparr>rs_stderr := rs_stderr s @ slice chunk 0 remaining,
                      rs_stderrTruncated := True\<rparr>
               else s\<lparr>rs_stderr := rs_stderr s @ chunk\<rparr>))"
| "handleEvent h grp s (PipeError message) = s\<lparr>rs_crashed := True\<rparr>"
| "handleEvent h grp s TimeoutFires =
     (if rs_timerArmed s
      then resolve (timeoutOutput h) (s\<lparr>rs_timerArmed := False, rs_killed := True\<rparr>)
      else s)"
| "handleEvent h grp s (CloseEvent code) =
     (let s1 = s\<lparr>rs_timerArmed := False\<rparr>
      in if \<not> h_writeFileSync h (logFilePath h grp) then s1\<lparr>rs_crashed := True\<rparr>
         else if code \<noteq> Some 0
         then resolve (errorOutput (''Container exited with code '' @ exitCodeString code
                                     @ '': '' @ sliceLast (rs_stderr s) 200)) s1
         else resolve (parseContainerOutput h (rs_stdout s)) s1)"
| "handleEvent h grp s (ErrorEvent message) =
     resolve (errorOutput (''Container spawn error: '' @ message)) (s\<lparr>rs_timerArmed := False\<rparr>)"

text \<open>Events are handled in order; nothing is handled after a crash.\<close>

fun handleEvents :: "host \<Rightarrow> RegisteredGroup \<Rightarrow> run_state \<Rightarrow> proc_event list \<Rightarrow> run_state" where
  "handleEvents h grp s [] = s"
| "handleEvents h grp s (e # es) =
     (if rs_crashed s then s else handleEvents h grp (handleEvent h grp s e) es)"

text \<open>
  The state a run ends in.  Only the close and error handlers clear the timer, so a timer
  that is still armed after the listed events fires then, unless the process has died.
\<close>

definition finalRunState :: "host \<Rightarrow> RegisteredGroup \<Rightarrow> proc_event list \<Rightarrow> run_state" where
  "finalRunState h grp events =
     (let s = handleEvents h grp initialRunState events
      in if rs_timerArmed s \<and> \<not> rs_crashed s then handleEvent h grp s TimeoutFires else s)"

text \<open>
  How a call of \<^verbatim>\<open>runContainerAgent\<close> ends: the promise is rejected (an exception in
  the preparation or in the executor), resolved with a value, still pending when the run has
  ended, or the host process died of an uncaught exception before the promise was settled.
\<close>

datatype run_outcome = Rejected host_error | Resolved json | Pending | Uncaught

definition runContainerAgent ::
  "host \<Rightarrow> RegisteredGroup \<Rightarrow> ContainerInput \<Rightarrow> child_process \<Rightarrow> run_outcome" where
  "runContainerAgent h grp input child =
     (let groupDir = pathJoin [h_GROUPS_DIR h, rg_folder grp];
          logsDir = pathJoin [h_GROUPS_DIR h, rg_folder grp, ''logs'']
      in if \<not> h_mkdirSync h groupDir then Rejected (MkdirFailed groupDir)
         else (case buildVolumeMounts h grp (ci_isMain input) (ci_effectiveTier input) of
                 Inl e \<Rightarrow> Rejected e
               | Inr mounts \<Rightarrow>
                   if \<not> h_mkdirSync h logsDir then Rejected (MkdirFailed logsDir)
                   else (case child of
                           SpawnThrows message \<Rightarrow> Rejected (SpawnFailed message)
                         | Spawned events \<Rightarrow>
                             (let s = finalRunState h grp events
                              in case rs_settled s of
                                   Some v \<Rightarrow> Resolved v
                                 | None \<Rightarrow> if rs_crashed s then Uncaught else Pending))))"





section \<open>Concrete states used to exercise the theorems\<close>

definition exampleRegistry :: UserRegistry where
  "exampleRegistry =
     \<lparr> owner = \<lparr> ui_jid = ''111@s.whatsapp.net'', ui_name = ''Ada'',
                   ui_addedAt = ''2026-01-01'', ui_addedBy = None \<rparr>,
       family = [\<lparr> ui_jid = ''222@s.whatsapp.net'', ui_name = ''Bo'',
                   ui_addedAt = ''2026-01-02'', ui_addedBy = Some ''111@s.whatsapp.net'' \<rparr>],
       friends = [\<lparr> ui_jid = ''333@s.whatsapp.net'', ui_name = ''Cy'',
                    ui_addedAt = ''2026-01-03'', ui_addedBy = Some ''111@s.whatsapp.net'' \<rparr>] \<rparr>"

text \<open>
  A parser that accepts exactly one file text and rejects every other; the accepted text
  stands for the JSON rendering of \<open>exampleRegistry\<close>.
\<close>

definition exampleParse :: "string \<Rightarrow> UserRegistry option" where
  "exampleParse s = (if s = ''users.json'' then Some exampleRegistry else None)"

definition exampleGroups :: "(string \<times> RegisteredGroup) list" where
  "exampleGroups =
     [(''main@g.us'', \<lparr> rg_name = ''Main'', rg_folder = ''main'', rg_trigger = ''@Jarvis'',
                        rg_added_at = ''2026-01-01'', rg_contextTier = Some CtxOwner,
                        rg_containerConfig = None \<rparr>),
      (''fam@g.us'', \<lparr> rg_name = ''Family'', rg_folder = ''fam'', rg_trigger = ''@Jarvis'',
                       rg_added_at = ''2026-01-02'', rg_contextTier = Some CtxFamily,
                       rg_containerConfig = None \<rparr>),
      (''pals@g.us'', \<lparr> rg_name = ''Pals'', rg_folder = ''pals'', rg_trigger = ''@Jarvis'',
                        rg_added_at = ''2026-01-03'', rg_contextTier = None,
                        rg_containerConfig = None \<rparr>)]"

definition exampleTask :: ScheduledTask where
  "exampleTask =
     \<lparr> st_id = ''task-1'', st_group_folder = ''fam'', st_chat_jid = ''fam@g.us'',
       st_prompt = ''water the plants'', st_schedule_type = ''interval'',
       st_schedule_value = ''60000'', st_context_mode = ''isolated'',
       st_next_run = Some ''T61000'', st_last_run = None, st_last_result = None,
       st_status = ''active'', st_created_at = ''T1000'' \<rparr>"

definition exampleState :: host_state where
  "exampleState =
     \<lparr> hs_groups = exampleGroups, hs_tasks = [''task-1'' \<mapsto> exampleTask], hs_sent = [] \<rparr>"

definition exampleEnv :: sched_env where
  "exampleEnv =
     \<lparr> se_cronNext = (\<lambda>v. if v = ''0 9 * * 1'' then Some ''2026-11-09T09:00:00.000Z'' else None),
       se_dateParse = (\<lambda>v. if v = ''2026-12-01T00:00:00Z'' then Some 1796083200000 else None),
       se_iso = (\<lambda>t. ''T'' @ numberToString t),
       se_now = 1000,
       se_random = ''k3x9qa'' \<rparr>"

definition emptyData :: IpcData where
  "emptyData =
     \<lparr> d_type = None, d_taskId = None, d_prompt = None, d_schedule_type = None,
       d_schedule_value = None, d_context_mode = None, d_groupFolder = None, d_chatJid = None,
       d_text = None, d_jid = None, d_name = None, d_folder = None, d_trigger = None,
       d_containerConfig = None, d_userJid = None, d_userName = None, d_tier = None \<rparr>"

text \<open>
  A parser for four command files, each text standing for the JSON rendering of the payload
  beside it; every other text makes it throw.
\<close>

definition exampleIpcParse :: "string \<Rightarrow> IpcData option" where
  "exampleIpcParse s =
     (if s = ''pause task-1'' then
        Some (emptyData\<lparr>d_type := Some ''pause_task'', d_taskId := Some ''task-1''\<rparr>)
      else if s = ''say hello to fam'' then
        Some (emptyData\<lparr>d_type := Some ''message'', d_chatJid := Some ''fam@g.us'',
                         d_text := Some ''hello'', d_groupFolder := Some ''main''\<rparr>)
      else if s = ''every abc'' then
        Some (emptyData\<lparr>d_type := Some ''schedule_task'', d_prompt := Some ''ping'',
                         d_schedule_type := Some ''interval'', d_schedule_value := Some ''abc'',
                         d_groupFolder := Some ''fam''\<rparr>)
      else if s = ''every minute'' then
        Some (emptyData\<lparr>d_type := Some ''schedule_task'', d_prompt := Some ''ping'',
                         d_schedule_type := Some ''interval'', d_schedule_value := Some ''60000'',
                         d_groupFolder := Some ''fam''\<rparr>)
      else None)"

text \<open>The row that \<open>every minute\<close>, sent from \<open>fam\<close>, adds to the task table.\<close>

definition createdTask :: ScheduledTask where
  "createdTask =
     \<lparr> st_id = ''task-1000-k3x9qa'', st_group_folder = ''fam'', st_chat_jid = ''fam@g.us'',
       st_prompt = ''ping'', st_schedule_type = ''interval'', st_schedule_value = ''60000'',
       st_context_mode = ''isolated'', st_next_run = Some ''T61000'', st_last_run = None,
       st_last_result = None, st_status = ''active'', st_created_at = ''T1000'' \<rparr>"

text \<open>
  \<^verbatim>\<open>JSON.parse\<close> on the texts used below: \<^verbatim>\<open>42\<close> and \<^verbatim>\<open>null\<close> are JSON values,
  the other texts are not JSON.
\<close>

definition exampleJsonParse :: "string \<Rightarrow> string + json" where
  "exampleJsonParse s =
     (if s = ''42'' then Inr (JNumber 42)
      else if s = ''null'' then Inr JNull
      else Inl ''Unexpected token'')"

definition exampleHost :: host where
  "exampleHost =
     \<lparr> h_cwd = ''/srv/app'', h_DATA_DIR = ''/srv/data'', h_GROUPS_DIR = ''/srv/groups'',
       h_CONTAINER_TIMEOUT = 300000, h_CONTAINER_MAX_OUTPUT_SIZE = 10485760,
       h_existsSync = (\<lambda>p. p = ''/srv/groups/global'' \<or> p = ''/srv/app/.env''),
       h_mkdirSync = (\<lambda>p. True),
       h_writeFileSync = (\<lambda>p. True),
       h_readFileSync = (\<lambda>p. if p = ''/srv/app/.env'' then Some ''ANTHROPIC_API_KEY=k'' else None),
       h_realpathSync = (\<lambda>p. RealPath p),
       h_isDirectory = (\<lambda>p. Some True),
       h_vaultConfig = \<lparr> vc_mainVault = Some \<lparr> vs_path = ''/srv/vault/main'', vs_enabled = True \<rparr>,
                         vc_privateVault = Some \<lparr> vs_path = ''/srv/vault/private'',
                                                  vs_enabled = True \<rparr> \<rparr>,
       h_expandPath = (\<lambda>p. p),
       h_validateAdditionalMounts = (\<lambda>requested groupName isMain. []),
       h_jsonParse = exampleJsonParse,
       h_timestamp = ''2026-11-02T10-00-00-000Z'' \<rparr>"



definition palsGroup :: RegisteredGroup where
  "palsGroup =
     \<lparr> rg_name = ''Pals'', rg_folder = ''pals'', rg_trigger = ''@Jarvis'',
       rg_added_at = ''2026-01-03'', rg_contextTier = None, rg_containerConfig = None \<rparr>"


definition exampleFriendMounts :: "VolumeMount list" where
  "exampleFriendMounts =
     [\<lparr> vm_hostPath = ''/srv/groups/pals'', vm_containerPath = ''/workspace/group'',
         vm_readonly = Some False \<rparr>,
      \<lparr> vm_hostPath = ''/srv/groups/global'', vm_containerPath = ''/workspace/global'',
         vm_readonly = Some True \<rparr>,
      \<lparr> vm_hostPath = ''/srv/data/sessions/friends/pals/.claude'',
         vm_containerPath = ''/home/node/.claude'', vm_readonly = Some False \<rparr>,
      \<lparr> vm_hostPath = ''/srv/data/ipc/pals'', vm_containerPath = ''/workspace/ipc'',
         vm_readonly = Some False \<rparr>,
      \<lparr> vm_hostPath = ''/srv/data/env'', vm_containerPath = ''/workspace/env-dir'',
         vm_readonly = Some True \<rparr>]"

section \<open>Properties of the policy engine\<close>

lemma set_takeWhile_ne: "x \<notin> set (takeWhile (\<lambda>c. c \<noteq> x) xs)"
  using set_takeWhileD by fastforce

lemma set_takeWhile_sub: "set (takeWhile P xs) \<subseteq> set xs"
  using set_takeWhileD by fastforce

lemma normalizeJid_idem: "normalizeJid (normalizeJid j) = normalizeJid j"
proof -
  define l where "l = takeWhile (\<lambda>c. c \<noteq> CHR ''@'') j"
  define nl where "nl = takeWhile (\<lambda>c. c \<noteq> CHR '':'') l"
  have at_l: "CHR ''@'' \<notin> set l"
    unfolding l_def by (rule set_takeWhile_ne)
  have at_nl: "CHR ''@'' \<notin> set nl"
    using at_l set_takeWhile_sub [of "\<lambda>c. c \<noteq> CHR '':''" l] unfolding nl_def by blast
  have col_nl: "CHR '':'' \<notin> set nl"
    unfolding nl_def by (rule set_takeWhile_ne)
  have all_at: "\<And>c. c \<in> set nl \<Longrightarrow> c \<noteq> CHR ''@''"
    using at_nl by blast
  have tw_nl: "takeWhile (\<lambda>c. c \<noteq> CHR ''@'') nl = nl"
    using all_at by (simp only: takeWhile_eq_all_conv) blast
  have dw_nl: "dropWhile (\<lambda>c. c \<noteq> CHR ''@'') nl = []"
    using all_at by (simp only: dropWhile_eq_Nil_conv) blast
  have tc_nl: "takeWhile (\<lambda>c. c \<noteq> CHR '':'') nl = nl"
    using col_nl by (simp only: takeWhile_eq_all_conv) blast
  have plain: "normalizeJid nl = nl"
    by (simp add: normalizeJid_def splitAt2_def tw_nl dw_nl tc_nl
        del: takeWhile_eq_all_conv dropWhile_eq_Nil_conv)
  have dom: "normalizeJid (nl @ ''@'' @ d) = nl @ ''@'' @ d"
    if "d \<noteq> []" "CHR ''@'' \<notin> set d" for d
  proof -
    have t1: "takeWhile (\<lambda>c. c \<noteq> CHR ''@'') (nl @ CHR ''@'' # d) = nl"
      using takeWhile_append2 [of nl "\<lambda>c. c \<noteq> CHR ''@''" "CHR ''@'' # d"] all_at by simp
    have d1: "dropWhile (\<lambda>c. c \<noteq> CHR ''@'') (nl @ CHR ''@'' # d) = CHR ''@'' # d"
      using dropWhile_append2 [of nl "\<lambda>c. c \<noteq> CHR ''@''" "CHR ''@'' # d"] all_at by simp
    have t2: "takeWhile (\<lambda>c. c \<noteq> CHR ''@'') d = d"
      using that(2) by (simp only: takeWhile_eq_all_conv) blast
    show ?thesis
      using that(1) by (simp add: normalizeJid_def splitAt2_def t1 d1 t2 tc_nl
          del: takeWhile_eq_all_conv dropWhile_eq_Nil_conv)
  qed
  show ?thesis
  proof (cases "dropWhile (\<lambda>c. c \<noteq> CHR ''@'') j")
    case Nil
    then have "normalizeJid j = nl"
      by (simp add: normalizeJid_def splitAt2_def l_def nl_def
          del: takeWhile_eq_all_conv dropWhile_eq_Nil_conv)
    then show ?thesis using plain by simp
  next
    case (Cons a r)
    define d where "d = takeWhile (\<lambda>c. c \<noteq> CHR ''@'') r"
    have nd: "CHR ''@'' \<notin> set d"
      unfolding d_def by (rule set_takeWhile_ne)
    have eq: "normalizeJid j = (if d = [] then nl else nl @ ''@'' @ d)"
      using Cons by (simp add: normalizeJid_def splitAt2_def l_def nl_def d_def
          del: takeWhile_eq_all_conv dropWhile_eq_Nil_conv takeWhile_eq_Nil_iff)
    show ?thesis
    proof (cases "d = []")
      case True
      then show ?thesis using eq plain by simp
    next
      case False
      then show ?thesis using eq dom [OF False nd] by simp
    qed
  qed
qed

lemma someMatches_iff:
  "someMatches us n \<longleftrightarrow> (\<exists>u\<in>set us. normalizeJid (ui_jid u) = n)"
  by (induction us) auto

lemma indexOf_contextPriority:
  "indexOf contextPriority c = int (restrictiveness c)"
  by (cases c) (simp_all add: contextPriority_def)

lemma contextPriority_nth:
  "contextPriority ! restrictiveness c = c"
  by (cases c) (simp_all add: contextPriority_def)

lemma determineAgentContext_max:
  "restrictiveness (determineAgentContext s (Some g)) =
     max (restrictiveness (inferredContextTier s)) (restrictiveness g)"
proof -
  have "nat (max (int (restrictiveness (inferredContextTier s))) (int (restrictiveness g)))
          = restrictiveness (if restrictiveness g \<le> restrictiveness (inferredContextTier s)
                             then inferredContextTier s else g)"
    by (simp add: max_def)
  then show ?thesis
    by (simp add: determineAgentContext_def indexOf_contextPriority Let_def
        contextPriority_nth max_def)
qed

text \<open>
  C1.  For every sender tier and every optional group context tier, the context returned by
  \<^verbatim>\<open>determineAgentContext\<close> is at least as restrictive as the context inferred from the
  sender alone, in the order owner < family < friend; a friend or stranger sender gets neither
  an owner nor a family context, whatever the group override.
\<close>

theorem determineAgentContext_never_elevates:
  "restrictiveness (inferredContextTier s) \<le> restrictiveness (determineAgentContext s g)
   \<and> ((s = TFriend \<or> s = TStranger) \<longrightarrow>
        determineAgentContext s g \<noteq> CtxOwner \<and> determineAgentContext s g \<noteq> CtxFamily)"
proof -
  have le: "restrictiveness (inferredContextTier s) \<le> restrictiveness (determineAgentContext s g)"
  proof (cases g)
    case None
    then show ?thesis by (simp add: determineAgentContext_def)
  next
    case (Some c)
    then show ?thesis by (simp add: determineAgentContext_max)
  qed
  have "determineAgentContext s g \<noteq> CtxOwner \<and> determineAgentContext s g \<noteq> CtxFamily"
    if "s = TFriend \<or> s = TStranger"
  proof -
    have "restrictiveness (inferredContextTier s) = 2"
      using that by (auto simp: inferredContextTier_def)
    with le have "2 \<le> restrictiveness (determineAgentContext s g)" by simp
    then show ?thesis by (cases "determineAgentContext s g") simp_all
  qed
  with le show ?thesis by blast
qed

theorem determineAgentContext_never_elevates_witness:
  "(TFriend = TFriend \<or> TFriend = TStranger)
   \<and> determineAgentContext TFriend (Some CtxOwner) = CtxFriend
   \<and> restrictiveness (inferredContextTier TFriend)
       \<le> restrictiveness (determineAgentContext TFriend (Some CtxOwner))"
  using determineAgentContext_never_elevates [of TFriend "Some CtxOwner"]
  by (cases "determineAgentContext TFriend (Some CtxOwner)") simp_all

lemma determineAgentContext_legacy_elevates:
  "determineAgentContext_legacy TFriend (Some CtxOwner) = CtxOwner"
  by (simp add: determineAgentContext_legacy_def)

lemma getUserTierFromRegistry_stranger:
  assumes "normalizeJid (ui_jid (owner r)) \<noteq> n"
    and "\<forall>u\<in>set (family r). normalizeJid (ui_jid u) \<noteq> n"
    and "\<forall>u\<in>set (friends r). normalizeJid (ui_jid u) \<noteq> n"
  shows "getUserTierFromRegistry n r = TStranger"
  using assms by (auto simp: getUserTierFromRegistry_def someMatches_iff)

lemma getUserTierFromRegistry_default: "getUserTierFromRegistry n defaultRegistry = TStranger"
  by (simp add: getUserTierFromRegistry_def defaultRegistry_def)

lemma loadUserRegistry_unavailable:
  assumes "f = Absent \<or> f = Unreadable \<or> (\<exists>s. f = Content s \<and> parse s = None)"
  shows "loadUserRegistry parse f = defaultRegistry"
  using assms by (auto simp: loadUserRegistry_def loadJson_def)

lemma normalizeJid_examples:
  "normalizeJid ''111@s.whatsapp.net'' = ''111@s.whatsapp.net''"
  "normalizeJid ''222@s.whatsapp.net'' = ''222@s.whatsapp.net''"
  "normalizeJid ''333@s.whatsapp.net'' = ''333@s.whatsapp.net''"
  "normalizeJid ''999:5@s.whatsapp.net'' = ''999@s.whatsapp.net''"
  "normalizeJid ''111:7@s.whatsapp.net'' = ''111@s.whatsapp.net''"
  "normalizeJid ''222:1@s.whatsapp.net'' = ''222@s.whatsapp.net''"
  by (simp_all add: normalizeJid_def splitAt2_def)

text \<open>
  C2.  An identity whose normalized form matches neither the owner entry nor any family or
  friend entry of the loaded registry is classified stranger; and when the registry file is
  absent, unreadable or rejected by the parser, the loaded registry is the empty default and
  every identity is classified stranger.
\<close>

theorem getUserTier_unknown_is_stranger:
  "(normalizeJid (ui_jid (owner (loadUserRegistry parse f))) \<noteq> normalizeJid j
    \<and> (\<forall>u\<in>set (family (loadUserRegistry parse f)). normalizeJid (ui_jid u) \<noteq> normalizeJid j)
    \<and> (\<forall>u\<in>set (friends (loadUserRegistry parse f)). normalizeJid (ui_jid u) \<noteq> normalizeJid j)
    \<longrightarrow> getUserTier parse f j = TStranger)
   \<and> ((f = Absent \<or> f = Unreadable \<or> (\<exists>s. f = Content s \<and> parse s = None))
    \<longrightarrow> loadUserRegistry parse f = defaultRegistry \<and> getUserTier parse f j = TStranger)"
proof (intro conjI impI)
  assume "normalizeJid (ui_jid (owner (loadUserRegistry parse f))) \<noteq> normalizeJid j
    \<and> (\<forall>u\<in>set (family (loadUserRegistry parse f)). normalizeJid (ui_jid u) \<noteq> normalizeJid j)
    \<and> (\<forall>u\<in>set (friends (loadUserRegistry parse f)). normalizeJid (ui_jid u) \<noteq> normalizeJid j)"
  then show "getUserTier parse f j = TStranger"
    unfolding getUserTier_def by (intro getUserTierFromRegistry_stranger) blast+
next
  assume u: "f = Absent \<or> f = Unreadable \<or> (\<exists>s. f = Content s \<and> parse s = None)"
  show "loadUserRegistry parse f = defaultRegistry"
    by (rule loadUserRegistry_unavailable [OF u])
  then show "getUserTier parse f j = TStranger"
    by (simp add: getUserTier_def getUserTierFromRegistry_default)
qed

theorem getUserTier_unknown_is_stranger_witness:
  "getUserTier exampleParse (Content ''users.json'') ''999:5@s.whatsapp.net'' = TStranger
   \<and> getUserTier exampleParse (Content ''{ not json'') ''111@s.whatsapp.net'' = TStranger
   \<and> getUserTier exampleParse Absent ''111@s.whatsapp.net'' = TStranger
   \<and> getUserTier exampleParse (Content ''users.json'') ''111:7@s.whatsapp.net'' = TOwner"
proof -
  have reg: "loadUserRegistry exampleParse (Content ''users.json'') = exampleRegistry"
    by (simp add: loadUserRegistry_def loadJson_def exampleParse_def)
  have h1: "normalizeJid (ui_jid (owner (loadUserRegistry exampleParse (Content ''users.json''))))
              \<noteq> normalizeJid ''999:5@s.whatsapp.net''
    \<and> (\<forall>u\<in>set (family (loadUserRegistry exampleParse (Content ''users.json''))).
          normalizeJid (ui_jid u) \<noteq> normalizeJid ''999:5@s.whatsapp.net'')
    \<and> (\<forall>u\<in>set (friends (loadUserRegistry exampleParse (Content ''users.json''))).
          normalizeJid (ui_jid u) \<noteq> normalizeJid ''999:5@s.whatsapp.net'')"
    by (simp add: reg exampleRegistry_def normalizeJid_examples)
  have h2: "Content ''{ not json'' = Absent \<or> Content ''{ not json'' = Unreadable
    \<or> (\<exists>s. Content ''{ not json'' = Content s \<and> exampleParse s = None)"
    by (simp add: exampleParse_def)
  have h3: "(Absent :: file_state) = Absent \<or> Absent = Unreadable
    \<or> (\<exists>s. Absent = Content s \<and> exampleParse s = None)"
    by simp
  have own: "getUserTier exampleParse (Content ''users.json'') ''111:7@s.whatsapp.net'' = TOwner"
    by (simp add: getUserTier_def reg getUserTierFromRegistry_def exampleRegistry_def
        normalizeJid_examples)
  show ?thesis
    using getUserTier_unknown_is_stranger
            [of exampleParse "Content ''users.json''" "''999:5@s.whatsapp.net''"]
          getUserTier_unknown_is_stranger
            [of exampleParse "Content ''{ not json''" "''111@s.whatsapp.net''"]
          getUserTier_unknown_is_stranger [of exampleParse Absent "''111@s.whatsapp.net''"]
          h1 h2 h3 own
    by blast
qed

lemma canInvoke_tier: "ar_tier (canInvoke parse f j g) = getUserTier parse f j"
  by (simp add: canInvoke_def Let_def getUserTier_def normalizeJid_idem)

lemma canInvoke_flag:
  "ar_canInvoke (canInvoke parse f j g)
     = (getUserTier parse f j = TOwner \<or> getUserTier parse f j = TFamily)"
  by (simp add: canInvoke_def Let_def getUserTier_def normalizeJid_idem)

text \<open>
  C8.  For every identity, the \<^verbatim>\<open>canInvoke\<close> flag of the result is true exactly when the
  identity is classified owner or family, the reported tier is the classified tier, and an
  identity classified friend or stranger gets the flag false; no other input (no trigger phrase)
  enters the function.
\<close>

theorem canInvoke_iff_owner_or_family:
  "ar_canInvoke (canInvoke parse f j g)
     = (getUserTier parse f j = TOwner \<or> getUserTier parse f j = TFamily)
   \<and> ar_tier (canInvoke parse f j g) = getUserTier parse f j
   \<and> ((getUserTier parse f j = TFriend \<or> getUserTier parse f j = TStranger)
        \<longrightarrow> \<not> ar_canInvoke (canInvoke parse f j g))"
  by (auto simp: canInvoke_flag canInvoke_tier)

theorem canInvoke_iff_owner_or_family_witness:
  "getUserTier exampleParse (Content ''users.json'') ''333@s.whatsapp.net'' = TFriend
   \<and> \<not> ar_canInvoke (canInvoke exampleParse (Content ''users.json'') ''333@s.whatsapp.net'' True)
   \<and> getUserTier exampleParse (Content ''users.json'') ''222:1@s.whatsapp.net'' = TFamily
   \<and> ar_canInvoke (canInvoke exampleParse (Content ''users.json'') ''222:1@s.whatsapp.net'' True)"
proof -
  have reg: "loadUserRegistry exampleParse (Content ''users.json'') = exampleRegistry"
    by (simp add: loadUserRegistry_def loadJson_def exampleParse_def)
  have t1: "getUserTier exampleParse (Content ''users.json'') ''333@s.whatsapp.net'' = TFriend"
    by (simp add: getUserTier_def reg getUserTierFromRegistry_def exampleRegistry_def
        normalizeJid_examples)
  have t2: "getUserTier exampleParse (Content ''users.json'') ''222:1@s.whatsapp.net'' = TFamily"
    by (simp add: getUserTier_def reg getUserTierFromRegistry_def exampleRegistry_def
        normalizeJid_examples)
  show ?thesis
    using canInvoke_iff_owner_or_family
            [of exampleParse "Content ''users.json''" "''333@s.whatsapp.net''" True]
          canInvoke_iff_owner_or_family
            [of exampleParse "Content ''users.json''" "''222:1@s.whatsapp.net''" True]
          t1 t2
    by simp
qed

text \<open>
  C10.  For every sender identity and registry state, \<^verbatim>\<open>canInvoke\<close> returns the same
  object (tier, flag and reason) whether it is called with \<^verbatim>\<open>isGroupChat\<close> true or false.
\<close>

theorem canInvoke_ignores_isGroupChat:
  "canInvoke parse f j True = canInvoke parse f j False"
  by (simp add: canInvoke_def)

theorem canInvoke_ignores_isGroupChat_witness:
  "canInvoke exampleParse (Content ''users.json'') ''222:1@s.whatsapp.net'' True
     = canInvoke exampleParse (Content ''users.json'') ''222:1@s.whatsapp.net'' False
   \<and> ar_reason (canInvoke exampleParse (Content ''users.json'') ''222:1@s.whatsapp.net'' False)
       = Some ''family tier user can invoke Jarvis''"
proof -
  have reg: "loadUserRegistry exampleParse (Content ''users.json'') = exampleRegistry"
    by (simp add: loadUserRegistry_def loadJson_def exampleParse_def)
  have t2: "getUserTier exampleParse (Content ''users.json'') ''222@s.whatsapp.net'' = TFamily"
    by (simp add: getUserTier_def reg getUserTierFromRegistry_def exampleRegistry_def
        normalizeJid_examples)
  have "ar_reason (canInvoke exampleParse (Content ''users.json'') ''222:1@s.whatsapp.net'' False)
       = Some ''family tier user can invoke Jarvis''"
    by (simp add: canInvoke_def Let_def normalizeJid_examples t2)
  then show ?thesis
    using canInvoke_ignores_isGroupChat
            [of exampleParse "Content ''users.json''" "''222:1@s.whatsapp.net''"]
    by simp
qed


section \<open>Properties of the stranger gate\<close>

lemma exampleRegistry_loaded:
  "loadUserRegistry exampleParse (Content ''users.json'') = exampleRegistry"
  by (simp add: loadUserRegistry_def loadJson_def exampleParse_def)

lemma exampleTiers:
  "getUserTier exampleParse (Content ''users.json'') ''111@s.whatsapp.net'' = TOwner"
  "getUserTier exampleParse (Content ''users.json'') ''999@s.whatsapp.net'' = TStranger"
  by (simp_all add: getUserTier_def exampleRegistry_loaded getUserTierFromRegistry_def
      exampleRegistry_def normalizeJid_def splitAt2_def)

text \<open>
  C3 at a failing input.  The first call caches the snapshot of a group with the owner and a
  stranger.  The second call, one second later, lists the owner twice (two device ids): the
  participant set differs from the snapshot, a fresh classification finds no stranger, yet
  the length and membership test sees no change and the cached \<open>True\<close> is returned.
\<close>

theorem hasStrangers_stale_on_duplicate_participants:
  "fst (hasStrangers exampleParse (Content ''users.json'') Map.empty 1000 ''fam@g.us''
          [''111@s.whatsapp.net'', ''999@s.whatsapp.net''] False) = True
   \<and> fst (hasStrangers exampleParse (Content ''users.json'')
          (snd (hasStrangers exampleParse (Content ''users.json'') Map.empty 1000 ''fam@g.us''
                  [''111@s.whatsapp.net'', ''999@s.whatsapp.net''] False))
          2000 ''fam@g.us'' [''111@s.whatsapp.net'', ''111:2@s.whatsapp.net''] False) = True
   \<and> set (map normalizeJid [''111@s.whatsapp.net'', ''111:2@s.whatsapp.net''])
       \<noteq> set (map normalizeJid [''111@s.whatsapp.net'', ''999@s.whatsapp.net''])
   \<and> foundStranger exampleParse (Content ''users.json'')
        (map normalizeJid [''111@s.whatsapp.net'', ''111:2@s.whatsapp.net'']) = False"
proof -
  have n: "normalizeJid ''fam@g.us'' = ''fam@g.us''"
    "normalizeJid ''111@s.whatsapp.net'' = ''111@s.whatsapp.net''"
    "normalizeJid ''111:2@s.whatsapp.net'' = ''111@s.whatsapp.net''"
    "normalizeJid ''999@s.whatsapp.net'' = ''999@s.whatsapp.net''"
    by (simp_all add: normalizeJid_def splitAt2_def)
  have first: "hasStrangers exampleParse (Content ''users.json'') Map.empty 1000 ''fam@g.us''
          [''111@s.whatsapp.net'', ''999@s.whatsapp.net''] False
        = (True, [''fam@g.us'' \<mapsto> \<lparr> ce_hasStrangers = True, ce_lastChecked = 1000,
              ce_participants = [''111@s.whatsapp.net'', ''999@s.whatsapp.net''] \<rparr>])"
    by (simp add: hasStrangers_def checkFresh_def n exampleTiers)
  have second: "fst (hasStrangers exampleParse (Content ''users.json'')
          [''fam@g.us'' \<mapsto> \<lparr> ce_hasStrangers = True, ce_lastChecked = 1000,
              ce_participants = [''111@s.whatsapp.net'', ''999@s.whatsapp.net''] \<rparr>]
          2000 ''fam@g.us'' [''111@s.whatsapp.net'', ''111:2@s.whatsapp.net''] False) = True"
    by (simp add: hasStrangers_def n CACHE_TTL_def participantsChanged_def)
  have fresh: "foundStranger exampleParse (Content ''users.json'')
        (map normalizeJid [''111@s.whatsapp.net'', ''111:2@s.whatsapp.net'']) = False"
    by (simp add: n exampleTiers)
  have ne: "set (map normalizeJid [''111@s.whatsapp.net'', ''111:2@s.whatsapp.net''])
       \<noteq> set (map normalizeJid [''111@s.whatsapp.net'', ''999@s.whatsapp.net''])"
    by (simp add: n)
  show ?thesis
    using first second fresh ne by simp
qed

lemma someNotCached_iff:
  "someNotCached ps cached \<longleftrightarrow> \<not> set (map normalizeJid ps) \<subseteq> set cached"
  by (induction ps) auto

lemma foundStranger_iff:
  "foundStranger parse f ps \<longleftrightarrow> (\<exists>p\<in>set ps. getUserTier parse f p = TStranger)"
  by (induction ps) auto

lemma participantsChanged_distinct:
  assumes "distinct (map normalizeJid ps)" and "distinct cached"
  shows "participantsChanged ps cached \<longleftrightarrow> set (map normalizeJid ps) \<noteq> set cached"
proof
  assume "participantsChanged ps cached"
  then consider "length ps \<noteq> length cached" | "\<not> set (map normalizeJid ps) \<subseteq> set cached"
    by (auto simp: participantsChanged_def someNotCached_iff)
  then show "set (map normalizeJid ps) \<noteq> set cached"
  proof cases
    case 1
    have "card (set (map normalizeJid ps)) = length ps"
      using distinct_card [OF assms(1)] by simp
    moreover have "card (set cached) = length cached"
      by (rule distinct_card [OF assms(2)])
    ultimately show ?thesis using 1 by metis
  next
    case 2
    then show ?thesis by blast
  qed
next
  assume ne: "set (map normalizeJid ps) \<noteq> set cached"
  show "participantsChanged ps cached"
  proof (rule ccontr)
    assume "\<not> participantsChanged ps cached"
    then have len: "length ps = length cached"
      and sub: "set (map normalizeJid ps) \<subseteq> set cached"
      by (auto simp: participantsChanged_def someNotCached_iff)
    have "card (set (map normalizeJid ps)) = card (set cached)"
      using distinct_card [OF assms(1)] distinct_card [OF assms(2)] len by simp
    then have "set (map normalizeJid ps) = set cached"
      using sub by (intro card_subset_eq) simp_all
    with ne show False by contradiction
  qed
qed

text \<open>
  Where the change test and set equality agree: when neither the normalized participant list
  nor the cached snapshot repeats an identity, a call inside the TTL returns the cached answer
  and leaves the cache alone exactly when the two sets are equal, and otherwise classifies
  every participant and overwrites the entry.
\<close>

theorem hasStrangers_cache_without_duplicates:
  assumes "cache (normalizeJid g) = Some entry"
    and "now - ce_lastChecked entry < CACHE_TTL"
    and "distinct (map normalizeJid ps)" and "distinct (ce_participants entry)"
  shows "(set (map normalizeJid ps) = set (ce_participants entry) \<longrightarrow>
            hasStrangers parse f cache now g ps False = (ce_hasStrangers entry, cache))
       \<and> (set (map normalizeJid ps) \<noteq> set (ce_participants entry) \<longrightarrow>
            hasStrangers parse f cache now g ps False
              = checkFresh parse f cache now (normalizeJid g) ps
            \<and> fst (hasStrangers parse f cache now g ps False)
              = (\<exists>p\<in>set ps. getUserTier parse f p = TStranger))"
proof -
  have c: "participantsChanged ps (ce_participants entry)
            \<longleftrightarrow> set (map normalizeJid ps) \<noteq> set (ce_participants entry)"
    by (rule participantsChanged_distinct [OF assms(3,4)])
  have fresh: "fst (checkFresh parse f cache now (normalizeJid g) ps)
                 = (\<exists>p\<in>set ps. getUserTier parse f p = TStranger)"
    by (simp add: checkFresh_def Let_def foundStranger_iff getUserTier_def normalizeJid_idem)
  show ?thesis
    using assms(1,2) c fresh by (simp add: hasStrangers_def Let_def)
qed

theorem hasStrangers_cache_without_duplicates_witness:
  "hasStrangers exampleParse (Content ''users.json'')
      [''fam@g.us'' \<mapsto> \<lparr> ce_hasStrangers = True, ce_lastChecked = 1000,
          ce_participants = [''111@s.whatsapp.net'', ''999@s.whatsapp.net''] \<rparr>]
      2000 ''fam@g.us'' [''999:3@s.whatsapp.net'', ''111@s.whatsapp.net''] False
    = (True, [''fam@g.us'' \<mapsto> \<lparr> ce_hasStrangers = True, ce_lastChecked = 1000,
          ce_participants = [''111@s.whatsapp.net'', ''999@s.whatsapp.net''] \<rparr>])"
proof -
  let ?entry = "\<lparr> ce_hasStrangers = True, ce_lastChecked = 1000,
          ce_participants = [''111@s.whatsapp.net'', ''999@s.whatsapp.net''] \<rparr>"
  have n: "normalizeJid ''fam@g.us'' = ''fam@g.us''"
    "normalizeJid ''111@s.whatsapp.net'' = ''111@s.whatsapp.net''"
    "normalizeJid ''999:3@s.whatsapp.net'' = ''999@s.whatsapp.net''"
    by (simp_all add: normalizeJid_def splitAt2_def)
  have h1: "[''fam@g.us'' \<mapsto> ?entry] (normalizeJid ''fam@g.us'') = Some ?entry"
    by (simp add: n)
  have h2: "2000 - ce_lastChecked ?entry < CACHE_TTL"
    by (simp add: CACHE_TTL_def)
  have h3: "distinct (map normalizeJid [''999:3@s.whatsapp.net'', ''111@s.whatsapp.net''])"
    by (simp add: n)
  have h4: "distinct (ce_participants ?entry)"
    by simp
  have s: "set (map normalizeJid [''999:3@s.whatsapp.net'', ''111@s.whatsapp.net''])
             = set (ce_participants ?entry)"
    by (auto simp: n)
  show ?thesis
    using hasStrangers_cache_without_duplicates
            [where cache = "[''fam@g.us'' \<mapsto> ?entry]" and g = "''fam@g.us''"
               and entry = ?entry and now = 2000
               and ps = "[''999:3@s.whatsapp.net'', ''111@s.whatsapp.net'']"
               and parse = exampleParse and f = "Content ''users.json''"]
          h1 h2 h3 h4 s
    by simp
qed

section \<open>Properties of the command channel\<close>

lemma exampleTier_pals: "sourceContextTier exampleGroups ''pals'' = CtxFriend"
  by (simp add: sourceContextTier_def exampleGroups_def)

text \<open>
  C4 as stated fails: the friend-tier namespace \<open>pals\<close> asks to pause a task of \<open>fam\<close>;
  the task is left alone, but the command file is deleted like any handled command and
  nothing is written to \<^verbatim>\<open>errors/\<close>.
\<close>

theorem cross_namespace_denial_deletes_file:
  "sourceContextTier (hs_groups exampleState) ''pals'' \<noteq> CtxOwner
   \<and> map_option st_group_folder (hs_tasks exampleState ''task-1'') = Some ''fam''
   \<and> exampleIpcParse ''pause task-1''
       = Some (emptyData\<lparr>d_type := Some ''pause_task'', d_taskId := Some ''task-1''\<rparr>)
   \<and> processTaskFile exampleIpcParse exampleEnv ''main'' exampleState ''pals'' ''cmd1.json''
         ''pause task-1'' = (exampleState, Deleted)
   \<and> snd (processTaskFile exampleIpcParse exampleEnv ''main'' exampleState ''pals'' ''cmd1.json''
         ''pause task-1'') \<noteq> Quarantined ''pals-cmd1.json''"
proof -
  have t: "sourceContextTier (hs_groups exampleState) ''pals'' = CtxFriend"
    by (simp add: exampleState_def exampleTier_pals)
  have p: "exampleIpcParse ''pause task-1''
       = Some (emptyData\<lparr>d_type := Some ''pause_task'', d_taskId := Some ''task-1''\<rparr>)"
    by (simp add: exampleIpcParse_def)
  have g: "hs_tasks exampleState ''task-1'' = Some exampleTask"
    by (simp add: exampleState_def)
  have a: "actOnTask effect exampleState
             (emptyData\<lparr>d_type := Some ''pause_task'', d_taskId := Some ''task-1''\<rparr>) ''pals''
           = exampleState" for effect
    by (simp add: actOnTask_def getTaskById_def g mayActOnTask_def t exampleTask_def)
  have r: "processTaskFile exampleIpcParse exampleEnv ''main'' exampleState ''pals'' ''cmd1.json''
         ''pause task-1'' = (exampleState, Deleted)"
    by (simp add: processTaskFile_def p processTaskIpc_def a)
  show ?thesis
    using t p g r by (simp add: exampleTask_def)
qed

text \<open>
  C4 (amended).  A \<^verbatim>\<open>pause_task\<close>, \<^verbatim>\<open>resume_task\<close> or \<^verbatim>\<open>cancel_task\<close> file found
  in namespace A that names a task of another namespace B is denied when the tier of A is not
  owner: the host state is unchanged, so the task of B keeps its row with its status and is
  not deleted; and the command file is deleted like any handled command instead of being moved
  to the quarantine directory.
\<close>

theorem cross_namespace_task_command_denied:
  assumes "d_type d = Some ''pause_task'' \<or> d_type d = Some ''resume_task'' \<or> d_type d = Some ''cancel_task''"
    and "d_taskId d = Some tid" and "hs_tasks st tid = Some task"
    and "st_group_folder task \<noteq> sourceGroup"
    and "sourceContextTier (hs_groups st) sourceGroup \<noteq> CtxOwner"
    and "parse content = Some d"
  shows "processTaskFile parse env mainFolder st sourceGroup fname content = (st, Deleted)
     \<and> hs_tasks (fst (processTaskFile parse env mainFolder st sourceGroup fname content)) tid
         = Some task
     \<and> snd (processTaskFile parse env mainFolder st sourceGroup fname content) = Deleted
     \<and> snd (processTaskFile parse env mainFolder st sourceGroup fname content)
         \<noteq> Quarantined (sourceGroup @ ''-'' @ fname)"
proof -
  have "actOnTask effect st d sourceGroup = st" for effect
    using assms(2-5) by (simp add: actOnTask_def getTaskById_def mayActOnTask_def)
  then have "processTaskIpc env st d sourceGroup m = Inr st" for m
    using assms(1) by (auto simp: processTaskIpc_def)
  then have "processTaskFile parse env mainFolder st sourceGroup fname content = (st, Deleted)"
    using assms(6) by (simp add: processTaskFile_def)
  then show ?thesis
    using assms(3) by simp
qed

theorem cross_namespace_task_command_denied_witness:
  "processTaskFile exampleIpcParse exampleEnv ''main'' exampleState ''pals'' ''cmd1.json''
     ''pause task-1'' = (exampleState, Deleted)
   \<and> hs_tasks (fst (processTaskFile exampleIpcParse exampleEnv ''main'' exampleState ''pals''
        ''cmd1.json'' ''pause task-1'')) ''task-1'' = Some exampleTask"
proof -
  have t: "sourceContextTier (hs_groups exampleState) ''pals'' \<noteq> CtxOwner"
    by (simp add: exampleState_def exampleTier_pals)
  have p: "exampleIpcParse ''pause task-1''
       = Some (emptyData\<lparr>d_type := Some ''pause_task'', d_taskId := Some ''task-1''\<rparr>)"
    by (simp add: exampleIpcParse_def)
  have g: "hs_tasks exampleState ''task-1'' = Some exampleTask"
    by (simp add: exampleState_def)
  have f: "st_group_folder exampleTask \<noteq> ''pals''"
    by (simp add: exampleTask_def)
  have "processTaskFile exampleIpcParse exampleEnv ''main'' exampleState ''pals'' ''cmd1.json''
     ''pause task-1'' = (exampleState, Deleted)"
    using cross_namespace_task_command_denied
            [of "emptyData\<lparr>d_type := Some ''pause_task'', d_taskId := Some ''task-1''\<rparr>"
                "''task-1''" exampleState exampleTask "''pals''" exampleIpcParse
                "''pause task-1''" exampleEnv "''main''" "''cmd1.json''"]
          g f t p
    by simp
  then show ?thesis using g by simp
qed

lemma handleIpcMessage_request:
  assumes "d_type d = Some ''message''" and "d_chatJid d = Some X" and "X \<noteq> []"
    and "d_text d = Some T" and "T \<noteq> []"
  shows "handleIpcMessage mainFolder st d S =
           (if S = mainFolder \<or> (\<exists>g. map_of (hs_groups st) X = Some g \<and> rg_folder g = S)
            then st\<lparr>hs_sent := hs_sent st @ [(X, T)]\<rparr> else st)"
  using assms by (auto simp: handleIpcMessage_def Let_def split: option.splits)

text \<open>
  C5.  For a file of namespace directory S in the message queue that parses to a send request
  (type \<^verbatim>\<open>message\<close>, a channel X and a text, both present and not empty), the message is
  handed to \<^verbatim>\<open>sendMessage\<close> exactly when S is the main group folder or X is a registered
  channel whose folder is S; otherwise nothing is sent; and two payloads that agree on type,
  channel and text are treated alike, whatever else (a claimed group folder, a user id) they
  carry.
\<close>

theorem ipc_message_sent_iff_authorized:
  assumes "parse content = Some d"
    and "d_type d = Some ''message''" and "d_chatJid d = Some X" and "X \<noteq> []"
    and "d_text d = Some T" and "T \<noteq> []"
  shows "(hs_sent (fst (processMessageFile parse mainFolder st S fname content))
            = hs_sent st @ [(X, T)])
          = (S = mainFolder \<or> (\<exists>g. map_of (hs_groups st) X = Some g \<and> rg_folder g = S))
       \<and> (hs_sent (fst (processMessageFile parse mainFolder st S fname content)) = hs_sent st
            \<or> hs_sent (fst (processMessageFile parse mainFolder st S fname content))
                 = hs_sent st @ [(X, T)])
       \<and> (\<forall>d'. parse' content = Some d' \<and> d_type d' = d_type d \<and> d_chatJid d' = d_chatJid d
                 \<and> d_text d' = d_text d
              \<longrightarrow> processMessageFile parse' mainFolder st S fname content
                    = processMessageFile parse mainFolder st S fname content)"
proof -
  have h: "handleIpcMessage mainFolder st d S =
           (if S = mainFolder \<or> (\<exists>g. map_of (hs_groups st) X = Some g \<and> rg_folder g = S)
            then st\<lparr>hs_sent := hs_sent st @ [(X, T)]\<rparr> else st)"
    by (rule handleIpcMessage_request [OF assms(2-6)])
  have p: "processMessageFile parse mainFolder st S fname content
             = (handleIpcMessage mainFolder st d S, Deleted)"
    using assms(1) by (simp add: processMessageFile_def)
  have indep: "processMessageFile parse' mainFolder st S fname content
                    = processMessageFile parse mainFolder st S fname content"
    if "parse' content = Some d'" "d_type d' = d_type d" "d_chatJid d' = d_chatJid d"
       "d_text d' = d_text d" for d'
  proof -
    have "handleIpcMessage mainFolder st d' S = handleIpcMessage mainFolder st d S"
      by (simp add: handleIpcMessage_def that(2-4) split: option.splits)
    then show ?thesis using that(1) p by (simp add: processMessageFile_def)
  qed
  show ?thesis
    using indep by (auto simp: p h)
qed

lemma computeNextRun_invalid_iff:
  "computeNextRun env k v = InvalidSchedule \<longleftrightarrow>
     (k = ''cron'' \<and> se_cronNext env v = None)
     \<or> (k = ''interval'' \<and> (parseInt10 v = None \<or> (\<exists>ms. parseInt10 v = Some ms \<and> ms \<le> 0)))
     \<or> (k = ''once'' \<and> se_dateParse env v = None)"
  by (auto simp: computeNextRun_def split: option.splits)

lemma scheduleTask_invalid:
  assumes "d_schedule_type d = Some k" and "d_schedule_value d = Some v"
    and "computeNextRun env k v = InvalidSchedule"
  shows "scheduleTask env st d S = Inr st"
  using assms
  by (simp add: scheduleTask_def Let_def split: option.splits prod.splits)

lemma createTask_new_row:
  assumes "createTask tasks task = Inr tasks'" and "tasks i = None" and "tasks' i = Some t"
  shows "t = task"
  using assms by (auto simp: createTask_def split: option.splits if_splits)

lemma scheduleTask_new_row:
  assumes "scheduleTask env st d S = Inr st'" and "hs_tasks st i = None"
    and "hs_tasks st' i = Some t"
  shows "\<exists>nr. computeNextRun env (st_schedule_type t) (st_schedule_value t) = NextRun nr"
  using assms
  by (auto simp: scheduleTask_def Let_def
      split: option.splits prod.splits if_splits next_run_result.splits sum.splits
      dest!: createTask_new_row)

lemma actOnTask_update_no_new_row:
  assumes "hs_tasks st i = None"
  shows "hs_tasks (actOnTask (\<lambda>tasks j. updateTaskStatus tasks j s) st d S) i = None"
  using assms
  by (auto simp: actOnTask_def updateTaskStatus_def getTaskById_def split: option.splits)

lemma actOnTask_delete_no_new_row:
  assumes "hs_tasks st i = None"
  shows "hs_tasks (actOnTask deleteTask st d S) i = None"
  using assms
  by (auto simp: actOnTask_def deleteTask_def getTaskById_def split: option.splits)

lemma registerGroupIpc_tasks: "hs_tasks (registerGroupIpc env st d S) = hs_tasks st"
  by (auto simp: registerGroupIpc_def split: option.splits prod.splits)

lemma processTaskIpc_new_row:
  assumes "processTaskIpc env st d S m = Inr st'" and "hs_tasks st i = None"
    and "hs_tasks st' i = Some t"
  shows "\<exists>nr. computeNextRun env (st_schedule_type t) (st_schedule_value t) = NextRun nr"
proof (cases "d_type d = Some ''schedule_task''")
  case True
  then have "scheduleTask env st d S = Inr st'"
    using assms(1) by (simp add: processTaskIpc_def)
  then show ?thesis by (rule scheduleTask_new_row [OF _ assms(2,3)])
next
  case False
  have "hs_tasks st' i = None"
    using assms(1,2) False actOnTask_update_no_new_row [of st i] actOnTask_delete_no_new_row [of st i]
    by (auto simp: processTaskIpc_def registerGroupIpc_tasks split: if_splits)
  with assms(3) show ?thesis by simp
qed

lemma parseInt10_examples:
  "parseInt10 ''abc'' = None"
  "parseInt10 ''60000'' = Some 60000"
  "parseInt10 ''30m'' = Some 30"
  "parseInt10 '' -5'' = Some (- 5)"
  by (simp_all add: parseInt10_def isWhiteSpace_def isDigit_def digitValue_def)

lemma numberToString_examples:
  "numberToString 1000 = ''1000''" "numberToString 1030 = ''1030''"
  "numberToString 61000 = ''61000''"
  by (simp_all add: numberToString_def digitChar_def)

lemma exampleState_schedule_from_fam:
  "sourceContextTier (hs_groups exampleState) ''fam'' = CtxFamily"
  "find (\<lambda>(j, g). rg_folder g = ''fam'') (hs_groups exampleState)
     = Some (''fam@g.us'', snd (exampleGroups ! 1))"
  "hs_tasks exampleState ''task-1000-k3x9qa'' = None"
  by (simp_all add: exampleState_def sourceContextTier_def exampleGroups_def)

lemma exampleEnv_fields:
  "se_now exampleEnv = 1000" "se_random exampleEnv = ''k3x9qa''"
  "se_iso exampleEnv 1000 = ''T1000''"
  by (simp_all add: exampleEnv_def numberToString_examples)

lemma example_every_minute:
  "processTaskIpc exampleEnv exampleState
     (emptyData\<lparr>d_type := Some ''schedule_task'', d_prompt := Some ''ping'',
                 d_schedule_type := Some ''interval'', d_schedule_value := Some ''60000'',
                 d_groupFolder := Some ''fam''\<rparr>) ''fam'' False
   = Inr (exampleState\<lparr>hs_tasks := (hs_tasks exampleState)(''task-1000-k3x9qa'' \<mapsto> createdTask)\<rparr>)"
proof -
  have c: "computeNextRun exampleEnv ''interval'' ''60000'' = NextRun (Some ''T61000'')"
    by (simp add: computeNextRun_def parseInt10_examples timeClip_def exampleEnv_def
        numberToString_examples)
  show ?thesis
    by (simp add: processTaskIpc_def scheduleTask_def Let_def exampleState_schedule_from_fam c
        exampleEnv_fields numberToString_examples createTask_def emptyData_def createdTask_def)
qed

text \<open>
  C9 fails on the code.  The family namespace \<open>fam\<close> asks for an interval task on itself
  with the schedule value \<^verbatim>\<open>30m\<close>, which is not a positive integer of milliseconds.
  \<^verbatim>\<open>parseInt\<close> reads the leading digits and ignores the rest, so the interval check lets
  the request through: a row that was not in the table before is created with the schedule
  value \<^verbatim>\<open>30m\<close> and a first run 30 milliseconds after the request.
\<close>

theorem schedule_task_accepts_malformed_interval:
  "\<not> positiveIntegerText ''30m''
   \<and> parseInt10 ''30m'' = Some 30
   \<and> hs_tasks exampleState ''task-1000-k3x9qa'' = None
   \<and> processTaskIpc exampleEnv exampleState
        (emptyData\<lparr>d_type := Some ''schedule_task'', d_prompt := Some ''ping'',
                    d_schedule_type := Some ''interval'', d_schedule_value := Some ''30m'',
                    d_groupFolder := Some ''fam''\<rparr>) ''fam'' False
      = Inr (exampleState\<lparr>hs_tasks := (hs_tasks exampleState)(''task-1000-k3x9qa'' \<mapsto>
               createdTask\<lparr>st_schedule_value := ''30m'', st_next_run := Some ''T1030''\<rparr>)\<rparr>)"
proof -
  have a: "\<not> positiveIntegerText ''30m''"
    by (simp add: positiveIntegerText_def isDigit_def)
  have c: "computeNextRun exampleEnv ''interval'' ''30m'' = NextRun (Some ''T1030'')"
    by (simp add: computeNextRun_def parseInt10_examples timeClip_def exampleEnv_def
        numberToString_examples)
  have r: "processTaskIpc exampleEnv exampleState
        (emptyData\<lparr>d_type := Some ''schedule_task'', d_prompt := Some ''ping'',
                    d_schedule_type := Some ''interval'', d_schedule_value := Some ''30m'',
                    d_groupFolder := Some ''fam''\<rparr>) ''fam'' False
      = Inr (exampleState\<lparr>hs_tasks := (hs_tasks exampleState)(''task-1000-k3x9qa'' \<mapsto>
               createdTask\<lparr>st_schedule_value := ''30m'', st_next_run := Some ''T1030''\<rparr>)\<rparr>)"
    by (simp add: processTaskIpc_def scheduleTask_def Let_def exampleState_schedule_from_fam c
        exampleEnv_fields numberToString_examples createTask_def emptyData_def createdTask_def)
  show ?thesis
    using a r by (simp add: parseInt10_examples exampleState_schedule_from_fam)
qed

text \<open>
  What the schedule check of \<^verbatim>\<open>schedule_task\<close> does guarantee.  The check refuses a
  value exactly when the cron library throws on it (kind \<^verbatim>\<open>cron\<close>), when
  \<^verbatim>\<open>parseInt(value, 10)\<close> is NaN or not positive (kind \<^verbatim>\<open>interval\<close>), or when
  \<^verbatim>\<open>new Date(value)\<close> is invalid (kind \<^verbatim>\<open>once\<close>).  A command whose value is refused
  creates nothing: the host state is unchanged, nothing is thrown and the file is deleted as
  handled.  And a row the command channel adds to the task table was never refused by the
  check.
\<close>

theorem schedule_check_refusal_creates_nothing:
  "(computeNextRun env k v = InvalidSchedule \<longleftrightarrow>
      (k = ''cron'' \<and> se_cronNext env v = None)
      \<or> (k = ''interval'' \<and> (parseInt10 v = None \<or> (\<exists>ms. parseInt10 v = Some ms \<and> ms \<le> 0)))
      \<or> (k = ''once'' \<and> se_dateParse env v = None))
   \<and> (d_type d = Some ''schedule_task'' \<and> d_schedule_type d = Some k
      \<and> d_schedule_value d = Some v \<and> computeNextRun env k v = InvalidSchedule
    \<longrightarrow> processTaskIpc env st d S m = Inr st
        \<and> (parse content = Some d
             \<longrightarrow> processTaskFile parse env mainFolder st S fname content = (st, Deleted)))
   \<and> (processTaskIpc env st d S m = Inr st' \<and> hs_tasks st i = None \<and> hs_tasks st' i = Some t
    \<longrightarrow> computeNextRun env (st_schedule_type t) (st_schedule_value t) \<noteq> InvalidSchedule)"
proof (intro conjI impI)
  show "computeNextRun env k v = InvalidSchedule \<longleftrightarrow>
      (k = ''cron'' \<and> se_cronNext env v = None)
      \<or> (k = ''interval'' \<and> (parseInt10 v = None \<or> (\<exists>ms. parseInt10 v = Some ms \<and> ms \<le> 0)))
      \<or> (k = ''once'' \<and> se_dateParse env v = None)"
    by (rule computeNextRun_invalid_iff)
next
  assume a: "d_type d = Some ''schedule_task'' \<and> d_schedule_type d = Some k
      \<and> d_schedule_value d = Some v \<and> computeNextRun env k v = InvalidSchedule"
  then have s: "scheduleTask env st d S = Inr st"
    by (intro scheduleTask_invalid [of d k v]) simp_all
  with a show "processTaskIpc env st d S m = Inr st"
    by (simp add: processTaskIpc_def)
  assume "parse content = Some d"
  with a s show "processTaskFile parse env mainFolder st S fname content = (st, Deleted)"
    by (simp add: processTaskFile_def processTaskIpc_def)
next
  assume "processTaskIpc env st d S m = Inr st' \<and> hs_tasks st i = None \<and> hs_tasks st' i = Some t"
  then obtain nr where
    "computeNextRun env (st_schedule_type t) (st_schedule_value t) = NextRun nr"
    using processTaskIpc_new_row by blast
  then show "computeNextRun env (st_schedule_type t) (st_schedule_value t) \<noteq> InvalidSchedule"
    by simp
qed

theorem schedule_check_refusal_creates_nothing_witness:
  "computeNextRun exampleEnv ''interval'' ''abc'' = InvalidSchedule
   \<and> processTaskFile exampleIpcParse exampleEnv ''main'' exampleState ''fam'' ''c1.json''
        ''every abc'' = (exampleState, Deleted)
   \<and> hs_tasks exampleState ''task-1000-k3x9qa'' = None
   \<and> processTaskIpc exampleEnv exampleState
        (emptyData\<lparr>d_type := Some ''schedule_task'', d_prompt := Some ''ping'',
                    d_schedule_type := Some ''interval'', d_schedule_value := Some ''60000'',
                    d_groupFolder := Some ''fam''\<rparr>) ''fam'' False
      = Inr (exampleState\<lparr>hs_tasks := (hs_tasks exampleState)(''task-1000-k3x9qa'' \<mapsto> createdTask)\<rparr>)
   \<and> computeNextRun exampleEnv ''interval'' ''60000'' \<noteq> InvalidSchedule"
proof -
  let ?d = "emptyData\<lparr>d_type := Some ''schedule_task'', d_prompt := Some ''ping'',
                         d_schedule_type := Some ''interval'', d_schedule_value := Some ''abc'',
                         d_groupFolder := Some ''fam''\<rparr>"
  let ?d' = "emptyData\<lparr>d_type := Some ''schedule_task'', d_prompt := Some ''ping'',
                          d_schedule_type := Some ''interval'', d_schedule_value := Some ''60000'',
                          d_groupFolder := Some ''fam''\<rparr>"
  let ?st' = "exampleState\<lparr>hs_tasks := (hs_tasks exampleState)(''task-1000-k3x9qa'' \<mapsto> createdTask)\<rparr>"
  note th = schedule_check_refusal_creates_nothing
  have u: "computeNextRun exampleEnv ''interval'' ''abc'' = InvalidSchedule"
    using th [where k = "''interval''" and v = "''abc''" and env = exampleEnv]
    by (simp add: parseInt10_examples)
  have p: "exampleIpcParse ''every abc'' = Some ?d"
    by (simp add: exampleIpcParse_def)
  have f: "d_type ?d = Some ''schedule_task'' \<and> d_schedule_type ?d = Some ''interval''
      \<and> d_schedule_value ?d = Some ''abc''"
    by (simp add: emptyData_def)
  have a1: "processTaskFile exampleIpcParse exampleEnv ''main'' exampleState ''fam'' ''c1.json''
        ''every abc'' = (exampleState, Deleted)"
    using th [where d = ?d and k = "''interval''" and v = "''abc''" and env = exampleEnv
               and st = exampleState and S = "''fam''" and m = False
               and parse = exampleIpcParse and content = "''every abc''"
               and mainFolder = "''main''" and fname = "''c1.json''"]
          u p f
    by blast
  have g: "hs_tasks exampleState ''task-1000-k3x9qa'' = None"
    by (simp add: exampleState_def)
  have r: "hs_tasks ?st' ''task-1000-k3x9qa'' = Some createdTask"
    by simp
  have "computeNextRun exampleEnv (st_schedule_type createdTask) (st_schedule_value createdTask)
          \<noteq> InvalidSchedule"
    using th [where d = ?d' and env = exampleEnv and st = exampleState and S = "''fam''"
               and m = False and st' = ?st' and i = "''task-1000-k3x9qa''" and t = createdTask]
          example_every_minute g r
    by blast
  then have n1: "computeNextRun exampleEnv ''interval'' ''60000'' \<noteq> InvalidSchedule"
    by (simp add: createdTask_def)
  show ?thesis
    using u a1 g example_every_minute n1 by simp
qed

theorem ipc_message_sent_iff_authorized_witness:
  "hs_sent (fst (processMessageFile exampleIpcParse ''main'' exampleState ''fam'' ''m1.json''
      ''say hello to fam'')) = [(''fam@g.us'', ''hello'')]
   \<and> hs_sent (fst (processMessageFile exampleIpcParse ''main'' exampleState ''pals'' ''m1.json''
      ''say hello to fam'')) = []
   \<and> hs_sent (fst (processMessageFile exampleIpcParse ''main'' exampleState ''main'' ''m1.json''
      ''say hello to fam'')) = [(''fam@g.us'', ''hello'')]"
proof -
  let ?d = "emptyData\<lparr>d_type := Some ''message'', d_chatJid := Some ''fam@g.us'',
                         d_text := Some ''hello'', d_groupFolder := Some ''main''\<rparr>"
  have p: "exampleIpcParse ''say hello to fam'' = Some ?d"
    by (simp add: exampleIpcParse_def)
  have f: "d_type ?d = Some ''message''" "d_chatJid ?d = Some ''fam@g.us''"
    "d_text ?d = Some ''hello''"
    by (simp_all add: emptyData_def)
  have g: "map_of (hs_groups exampleState) ''fam@g.us'' = Some (snd (exampleGroups ! 1))"
    by (simp add: exampleState_def exampleGroups_def)
  have fo: "rg_folder (snd (exampleGroups ! 1)) = ''fam''"
    by (simp add: exampleGroups_def)
  have s0: "hs_sent exampleState = []"
    by (simp add: exampleState_def)
  note th = ipc_message_sent_iff_authorized
              [where parse = exampleIpcParse and content = "''say hello to fam''" and d = ?d
                 and X = "''fam@g.us''" and T = "''hello''" and mainFolder = "''main''"
                 and st = exampleState and fname = "''m1.json''", OF p f(1) f(2) _ f(3)]
  have a1: "hs_sent (fst (processMessageFile exampleIpcParse ''main'' exampleState ''fam''
              ''m1.json'' ''say hello to fam'')) = [(''fam@g.us'', ''hello'')]"
    using th [where S = "''fam''"] g fo s0 by simp
  have a2: "hs_sent (fst (processMessageFile exampleIpcParse ''main'' exampleState ''pals''
              ''m1.json'' ''say hello to fam'')) = []"
    using th [where S = "''pals''"] g fo s0 by auto
  have a3: "hs_sent (fst (processMessageFile exampleIpcParse ''main'' exampleState ''main''
              ''m1.json'' ''say hello to fam'')) = [(''fam@g.us'', ''hello'')]"
    using th [where S = "''main''"] s0 by simp
  show ?thesis using a1 a2 a3 by simp
qed


section \<open>Properties of the container orchestrator\<close>

lemma envMounts_shape:
  assumes "envMounts h = Inr env"
  shows "env = [] \<or> env = [\<lparr> vm_hostPath = pathJoin [h_DATA_DIR h, ''env''],
                              vm_containerPath = ''/workspace/env-dir'',
                              vm_readonly = Some True \<rparr>]"
  using assms by (auto simp: envMounts_def Let_def split: if_splits option.splits)

lemma envMounts_not_privileged:
  assumes "envMounts h = Inr env" and "m \<in> set env"
  shows "vm_containerPath m \<notin> set privilegedContainerPaths"
  using envMounts_shape [OF assms(1)] assms(2)
  by (auto simp: privilegedContainerPaths_def)

lemma globalMounts_not_privileged:
  assumes "m \<in> set (globalMounts h)"
  shows "vm_containerPath m \<notin> set privilegedContainerPaths \<and> vm_readonly m = Some True"
  using assms by (auto simp: globalMounts_def Let_def privilegedContainerPaths_def split: if_splits)

lemma fixed_mounts_not_privileged:
  "vm_containerPath (groupFolderMount h grp) \<notin> set privilegedContainerPaths"
  "vm_containerPath (sessionMount h grp t) \<notin> set privilegedContainerPaths"
  "vm_containerPath (ipcMount h grp) \<notin> set privilegedContainerPaths"
  by (simp_all add: groupFolderMount_def sessionMount_def ipcMount_def privilegedContainerPaths_def)

lemma buildVolumeMounts_Inr:
  assumes "buildVolumeMounts h grp isMain eff = Inr ms"
  shows "\<exists>env. envMounts h = Inr env
           \<and> ms = tierMounts h grp (resolveContextTier grp isMain eff)
                  @ [sessionMount h grp (resolveContextTier grp isMain eff), ipcMount h grp]
                  @ env @ additionalMounts h grp isMain"
  using assms by (auto simp: buildVolumeMounts_def Let_def split: if_splits sum.splits)

text \<open>
  C7.  When the resolved context tier is friend, the tier-dependent mounts are exactly the
  group workspace, read-write, followed by the global directory, read-only, when it exists.
  Whenever the mount list is composed, it is these mounts, the session directory of the
  friend group, the per-group IPC directory, the environment-file mount (present when
  \<^verbatim>\<open>.env\<close> holds an allowed variable) and the vetted additional mounts, in this order; no
  mount that \<^verbatim>\<open>buildVolumeMounts\<close> adds itself has the container path of the project root
  or of a vault, so without additional mounts the list holds none.
\<close>

theorem friend_tier_mounts:
  assumes "resolveContextTier grp isMain eff = CtxFriend"
  shows "tierMounts h grp (resolveContextTier grp isMain eff)
           = [groupFolderMount h grp] @ globalMounts h
       \<and> vm_readonly (groupFolderMount h grp) = Some False
       \<and> (\<forall>m\<in>set (globalMounts h). vm_readonly m = Some True)
       \<and> (\<forall>ms. buildVolumeMounts h grp isMain eff = Inr ms \<longrightarrow>
             (\<exists>env. envMounts h = Inr env
                \<and> ms = [groupFolderMount h grp] @ globalMounts h
                       @ [sessionMount h grp CtxFriend, ipcMount h grp]
                       @ env @ additionalMounts h grp isMain)
             \<and> (\<forall>m\<in>set ms. vm_containerPath m \<in> set privilegedContainerPaths
                   \<longrightarrow> m \<in> set (additionalMounts h grp isMain))
             \<and> (additionalMounts h grp isMain = []
                   \<longrightarrow> (\<forall>m\<in>set ms. vm_containerPath m \<notin> set privilegedContainerPaths)))"
proof (intro conjI allI impI)
  show t: "tierMounts h grp (resolveContextTier grp isMain eff)
           = [groupFolderMount h grp] @ globalMounts h"
    using assms by simp
  show "vm_readonly (groupFolderMount h grp) = Some False"
    by (simp add: groupFolderMount_def)
  show "\<forall>m\<in>set (globalMounts h). vm_readonly m = Some True"
    using globalMounts_not_privileged by blast
  fix ms
  assume b: "buildVolumeMounts h grp isMain eff = Inr ms"
  from buildVolumeMounts_Inr [OF b] obtain env where
    e: "envMounts h = Inr env" and
    m: "ms = tierMounts h grp (resolveContextTier grp isMain eff)
              @ [sessionMount h grp (resolveContextTier grp isMain eff), ipcMount h grp]
              @ env @ additionalMounts h grp isMain"
    by blast
  have m': "ms = [groupFolderMount h grp] @ globalMounts h
                 @ [sessionMount h grp CtxFriend, ipcMount h grp]
                 @ env @ additionalMounts h grp isMain"
    using m t assms by simp
  show "\<exists>env. envMounts h = Inr env
                \<and> ms = [groupFolderMount h grp] @ globalMounts h
                       @ [sessionMount h grp CtxFriend, ipcMount h grp]
                       @ env @ additionalMounts h grp isMain"
    using e m' by blast
  show only_additional: "\<forall>m\<in>set ms. vm_containerPath m \<in> set privilegedContainerPaths
                   \<longrightarrow> m \<in> set (additionalMounts h grp isMain)"
  proof (intro ballI impI)
    fix x
    assume x: "x \<in> set ms" and px: "vm_containerPath x \<in> set privilegedContainerPaths"
    from x m' have "x = groupFolderMount h grp \<or> x \<in> set (globalMounts h)
        \<or> x = sessionMount h grp CtxFriend \<or> x = ipcMount h grp \<or> x \<in> set env
        \<or> x \<in> set (additionalMounts h grp isMain)"
      by auto
    then show "x \<in> set (additionalMounts h grp isMain)"
      using px fixed_mounts_not_privileged [of h grp] globalMounts_not_privileged [of x h]
        envMounts_not_privileged [OF e, of x]
      by blast
  qed
  assume "additionalMounts h grp isMain = []"
  with only_additional
  show "\<forall>m\<in>set ms. vm_containerPath m \<notin> set privilegedContainerPaths"
    by auto
qed

lemma exampleHost_fields:
  "h_cwd exampleHost = ''/srv/app''"
  "h_DATA_DIR exampleHost = ''/srv/data''"
  "h_GROUPS_DIR exampleHost = ''/srv/groups''"
  "h_mkdirSync exampleHost p"
  "h_writeFileSync exampleHost p"
  "h_existsSync exampleHost ''/srv/groups/global''"
  "h_existsSync exampleHost ''/srv/app/.env''"
  "h_readFileSync exampleHost ''/srv/app/.env'' = Some ''ANTHROPIC_API_KEY=k''"
  "h_jsonParse exampleHost = exampleJsonParse"
  "h_CONTAINER_TIMEOUT exampleHost = 300000"
  by (simp_all add: exampleHost_def)

lemma pathJoin_examples:
  "pathJoin [''/srv/groups'', ''pals''] = ''/srv/groups/pals''"
  "pathJoin [''/srv/groups'', ''pals'', ''logs''] = ''/srv/groups/pals/logs''"
  "pathJoin [''/srv/groups'', ''global''] = ''/srv/groups/global''"
  "pathJoin [''/srv/data'', ''sessions'', ''friends'', ''pals'', ''.claude'']
     = ''/srv/data/sessions/friends/pals/.claude''"
  "pathJoin [''/srv/data'', ''ipc'', ''pals''] = ''/srv/data/ipc/pals''"
  "pathJoin [''/srv/data'', ''env''] = ''/srv/data/env''"
  "pathJoin [''/srv/app'', ''.env''] = ''/srv/app/.env''"
  "pathJoin [''/srv/data/env'', ''env''] = ''/srv/data/env/env''"
  "pathJoin [''/srv/groups'', ''../main''] = ''/srv/main''"
  by (simp_all add: pathJoin_def normalizePath_def)

lemma keepEnvLine_example: "keepEnvLine ''ANTHROPIC_API_KEY=k''"
proof -
  have w: "\<not> isWhiteSpace CHR ''A''" "\<not> isWhiteSpace CHR ''k''"
    by (simp_all add: isWhiteSpace_def)
  have t: "trim ''ANTHROPIC_API_KEY=k'' = ''ANTHROPIC_API_KEY=k''"
    by (simp add: trim_def w)
  have s1: "startsWith ''ANTHROPIC_API_KEY=k'' ''ANTHROPIC_API_KEY=''"
    by (simp add: startsWith_def)
  have s2: "\<not> startsWith ''ANTHROPIC_API_KEY=k'' ''#''"
    by (simp add: startsWith_def)
  show ?thesis
    by (simp add: keepEnvLine_def t s1 s2 allowedVars_def)
qed

lemma exampleHost_envMounts:
  "envMounts exampleHost = Inr [\<lparr> vm_hostPath = ''/srv/data/env'',
       vm_containerPath = ''/workspace/env-dir'', vm_readonly = Some True \<rparr>]"
  by (simp add: envMounts_def exampleHost_fields pathJoin_examples keepEnvLine_example)

lemma exampleHost_friend_mounts:
  "buildVolumeMounts exampleHost palsGroup False (Some CtxFriend) = Inr exampleFriendMounts"
  by (simp add: buildVolumeMounts_def resolveContextTier_def exampleHost_envMounts
      groupFolderMount_def globalMounts_def sessionMount_def ipcMount_def additionalMounts_def
      palsGroup_def exampleHost_fields pathJoin_examples exampleFriendMounts_def)

theorem friend_tier_mounts_witness:
  "resolveContextTier palsGroup False (Some CtxFriend) = CtxFriend
   \<and> (\<exists>ms. buildVolumeMounts exampleHost palsGroup False (Some CtxFriend) = Inr ms
         \<and> map vm_containerPath ms
             = [''/workspace/group'', ''/workspace/global'', ''/home/node/.claude'',
                ''/workspace/ipc'', ''/workspace/env-dir''])
   \<and> tierMounts exampleHost palsGroup CtxFriend
       = [groupFolderMount exampleHost palsGroup] @ globalMounts exampleHost"
proof -
  have r: "resolveContextTier palsGroup False (Some CtxFriend) = CtxFriend"
    by (simp add: resolveContextTier_def)
  have "tierMounts exampleHost palsGroup CtxFriend
       = [groupFolderMount exampleHost palsGroup] @ globalMounts exampleHost"
    using friend_tier_mounts [OF r, of exampleHost] r by simp
  then show ?thesis
    using r exampleHost_friend_mounts by (simp add: exampleFriendMounts_def)
qed



lemma resolve_settled: "rs_settled (resolve v s) = Some (case rs_settled s of None \<Rightarrow> v | Some w \<Rightarrow> w)"
  by (simp add: resolve_def split: option.splits)

lemma resolve_crashed: "rs_crashed (resolve v s) = rs_crashed s"
  by (simp add: resolve_def split: option.splits)














text \<open>
  No run ends pending: as long as the promise is unsettled and the host alive, the timer is
  armed, and an armed timer fires.
\<close>

lemma handleEvent_timer_invariant:
  assumes "rs_crashed s \<or> rs_settled s \<noteq> None \<or> rs_timerArmed s"
  shows "rs_crashed (handleEvent h grp s e) \<or> rs_settled (handleEvent h grp s e) \<noteq> None
         \<or> rs_timerArmed (handleEvent h grp s e)"
  using assms by (cases e) (auto simp: Let_def resolve_settled resolve_crashed)

lemma handleEvents_timer_invariant:
  assumes "rs_crashed s \<or> rs_settled s \<noteq> None \<or> rs_timerArmed s"
  shows "rs_crashed (handleEvents h grp s es) \<or> rs_settled (handleEvents h grp s es) \<noteq> None
         \<or> rs_timerArmed (handleEvents h grp s es)"
  using assms
proof (induction es arbitrary: s)
  case Nil
  then show ?case by simp
next
  case (Cons e es)
  show ?case
  proof (cases "rs_crashed s")
    case True
    then show ?thesis by simp
  next
    case False
    then show ?thesis
      using Cons.IH [OF handleEvent_timer_invariant [OF Cons.prems, of h grp e]] by simp
  qed
qed

lemma finalRunState_not_pending:
  "rs_settled (finalRunState h grp events) \<noteq> None \<or> rs_crashed (finalRunState h grp events)"
proof -
  have "rs_crashed (handleEvents h grp initialRunState events)
        \<or> rs_settled (handleEvents h grp initialRunState events) \<noteq> None
        \<or> rs_timerArmed (handleEvents h grp initialRunState events)"
    by (rule handleEvents_timer_invariant) (simp add: initialRunState_def)
  then show ?thesis
    by (auto simp: finalRunState_def Let_def resolve_settled)
qed

lemma runContainerAgent_never_pending: "runContainerAgent h grp input child \<noteq> Pending"
proof (cases child)
  case (SpawnThrows message)
  then show ?thesis
    by (simp add: runContainerAgent_def Let_def split: sum.splits)
next
  case (Spawned events)
  then show ?thesis
    using finalRunState_not_pending [of h grp events]
    by (auto simp: runContainerAgent_def Let_def split: sum.splits option.splits)
qed























end
